theory Spec2Isabelle
  imports Main
begin

section \<open>JavaScript values\<close>

text \<open>
  Both source files (the server module \<^verbatim>\<open>chronos-brain.js\<close> and the edge function) work on
  untyped JavaScript values: request bodies, parsed assistant replies and the result objects
  handed to the dashboard. A value is \<open>undefined\<close>, \<open>null\<close>, a boolean, a number, a string,
  an array or an object.

  \<^item> Numbers are the integers that a double holds exactly and \<open>JSON.stringify\<close> writes digit
    by digit, those of magnitude at most \<open>2^53 - 1\<close>. Larger magnitudes, fractions, \<open>NaN\<close>
    and the infinities are outside the model: \<open>JNum n\<close> stands for no value of the program
    when \<open>n\<close> is beyond that bound.
  \<^item> Strings are lists of code units below 256 (the Latin-1 range, \<open>CHR 0xA0\<close> being the
    no-break space). Text with a code unit beyond that range is outside the model.
  \<^item> An object is the list of its own enumerable properties in the order the runtime
    enumerates them, each name once: names that are array indices first, in ascending
    numeric order, then the other names in the order of their creation. The objects the
    program builds itself have no index-like name, so for them this is the order in which
    the source writes the properties.
\<close>

datatype jsval =
    JUndefined
  | JNull
  | JBool bool
  | JNum int
  | JStr string
  | JArr "jsval list"
  | JObj "(string \<times> jsval) list"

text \<open>\<open>ToBoolean\<close>: what \<open>!x\<close>, \<open>x && y\<close> and \<open>x || y\<close> test.\<close>

fun truthy :: "jsval \<Rightarrow> bool" where
  "truthy JUndefined = False"
| "truthy JNull = False"
| "truthy (JBool b) = b"
| "truthy (JNum n) = (n \<noteq> 0)"
| "truthy (JStr s) = (s \<noteq> [])"
| "truthy (JArr xs) = True"
| "truthy (JObj kvs) = True"

text \<open>What \<open>x ?? y\<close> tests: \<open>x\<close> is \<open>null\<close> or \<open>undefined\<close>.\<close>

fun nullish :: "jsval \<Rightarrow> bool" where
  "nullish JUndefined = True"
| "nullish JNull = True"
| "nullish v = False"

text \<open>\<open>typeof x === 'object'\<close> holds of \<open>null\<close>, of arrays and of objects.\<close>

fun typeof_object :: "jsval \<Rightarrow> bool" where
  "typeof_object JNull = True"
| "typeof_object (JArr xs) = True"
| "typeof_object (JObj kvs) = True"
| "typeof_object v = False"

fun typeof_string :: "jsval \<Rightarrow> bool" where
  "typeof_string (JStr s) = True"
| "typeof_string v = False"

fun isArray :: "jsval \<Rightarrow> bool" where
  "isArray (JArr xs) = True"
| "isArray v = False"

definition js_or :: "jsval \<Rightarrow> jsval \<Rightarrow> jsval" where
  "js_or a b = (if truthy a then a else b)"

definition js_coalesce :: "jsval \<Rightarrow> jsval \<Rightarrow> jsval" where
  "js_coalesce a b = (if nullish a then b else a)"

text \<open>
  Property read \<open>v.k\<close> on a value that is neither \<open>null\<close> nor \<open>undefined\<close>, for the property
  names the source reads (none of them is defined on a prototype): the own property of an
  object, \<open>undefined\<close> when the object has none, and \<open>undefined\<close> on arrays and primitives.
  Reading a property of \<open>null\<close> or \<open>undefined\<close> raises a TypeError; the functions below
  write that case out where the source can reach it.
\<close>

fun js_get :: "jsval \<Rightarrow> string \<Rightarrow> jsval" where
  "js_get (JObj kvs) k = (case map_of kvs k of Some v \<Rightarrow> v | None \<Rightarrow> JUndefined)"
| "js_get v k = JUndefined"

fun keys :: "jsval \<Rightarrow> string list" where
  "keys (JObj kvs) = map fst kvs"
| "keys v = []"

section \<open>\<open>JSON.stringify(value, null, 2)\<close>\<close>

definition digit_char :: "nat \<Rightarrow> char" where
  "digit_char d = char_of (48 + d)"

fun nat_digits :: "nat \<Rightarrow> string" where
  "nat_digits n = (if n < 10 then [digit_char n] else nat_digits (n div 10) @ [digit_char (n mod 10)])"

definition number_to_string :: "int \<Rightarrow> string" where
  "number_to_string i = (if i < 0 then CHR ''-'' # nat_digits (nat (- i)) else nat_digits (nat i))"

definition hex_char :: "nat \<Rightarrow> char" where
  "hex_char d = (if d < 10 then char_of (48 + d) else char_of (87 + d))"

text \<open>\<open>QuoteJSONString\<close>, one code unit at a time.\<close>

definition quote_char :: "char \<Rightarrow> string" where
  "quote_char c =
     (if c = CHR 0x22 then [CHR 0x5C, CHR 0x22]
      else if c = CHR 0x5C then [CHR 0x5C, CHR 0x5C]
      else if c = CHR 0x08 then [CHR 0x5C, CHR ''b'']
      else if c = CHR 0x0C then [CHR 0x5C, CHR ''f'']
      else if c = CHR 0x0A then [CHR 0x5C, CHR ''n'']
      else if c = CHR 0x0D then [CHR 0x5C, CHR ''r'']
      else if c = CHR 0x09 then [CHR 0x5C, CHR ''t'']
      else if of_char c < (32::nat)
        then [CHR 0x5C, CHR ''u'', CHR ''0'', CHR ''0'',
              hex_char (of_char c div 16), hex_char (of_char c mod 16)]
      else [c])"

definition quote :: "string \<Rightarrow> string" where
  "quote s = [CHR 0x22] @ concat (map quote_char s) @ [CHR 0x22]"

fun join :: "string \<Rightarrow> string list \<Rightarrow> string" where
  "join sep [] = []"
| "join sep [x] = x"
| "join sep (x # y # ys) = x @ sep @ join sep (y # ys)"

definition indent :: "nat \<Rightarrow> string" where
  "indent d = replicate (2 * d) CHR '' ''"

text \<open>
  \<open>SerializeJSONProperty\<close> with a gap of two spaces, at nesting depth \<open>d\<close>. The result is
  \<open>None\<close> where the operation yields \<open>undefined\<close>. An array element that is \<open>undefined\<close>
  is written \<open>null\<close>; an object property that is \<open>undefined\<close> is left out.
\<close>

fun serialize :: "nat \<Rightarrow> jsval \<Rightarrow> string option"
  and serialize_elements :: "nat \<Rightarrow> jsval list \<Rightarrow> string list"
  and serialize_members :: "nat \<Rightarrow> (string \<times> jsval) list \<Rightarrow> string list"
where
  "serialize d JUndefined = None"
| "serialize d JNull = Some ''null''"
| "serialize d (JBool b) = Some (if b then ''true'' else ''false'')"
| "serialize d (JNum n) = Some (number_to_string n)"
| "serialize d (JStr s) = Some (quote s)"
| "serialize d (JArr xs) =
     (let partial = serialize_elements (Suc d) xs in
      if partial = [] then Some ''[]''
      else Some (''['' @ [CHR 0x0A] @ indent (Suc d)
                 @ join ('','' @ [CHR 0x0A] @ indent (Suc d)) partial
                 @ [CHR 0x0A] @ indent d @ '']''))"
| "serialize d (JObj kvs) =
     (let partial = serialize_members (Suc d) kvs in
      if partial = [] then Some ''{}''
      else Some (''{'' @ [CHR 0x0A] @ indent (Suc d)
                 @ join ('','' @ [CHR 0x0A] @ indent (Suc d)) partial
                 @ [CHR 0x0A] @ indent d @ ''}''))"
| "serialize_elements d [] = []"
| "serialize_elements d (x # xs) =
     (case serialize d x of None \<Rightarrow> ''null'' | Some s \<Rightarrow> s) # serialize_elements d xs"
| "serialize_members d [] = []"
| "serialize_members d ((k, v) # kvs) =
     (case serialize d v of
        None \<Rightarrow> serialize_members d kvs
      | Some s \<Rightarrow> (quote k @ '': '' @ s) # serialize_members d kvs)"

definition stringify :: "jsval \<Rightarrow> string option" where
  "stringify v = serialize 0 v"

text \<open>String concatenation \<open>s + x\<close> where \<open>x\<close> is a string or \<open>undefined\<close>.\<close>

definition plus_str :: "string \<Rightarrow> string option \<Rightarrow> string" where
  "plus_str s x = (case x of None \<Rightarrow> s @ ''undefined'' | Some t \<Rightarrow> s @ t)"

section \<open>Payload Formatter\<close>

text \<open>
  \<open>formatExecutivePayload\<close> of \<^verbatim>\<open>chronos-brain.js\<close>. The array \<open>sections\<close> is threaded through
  the three pushes in source order.
\<close>

definition formatExecutivePayload :: "jsval \<Rightarrow> jsval \<Rightarrow> jsval \<Rightarrow> string" where
  "formatExecutivePayload biometrics labs calendar =
     (let sections0 = [];
          sections1 =
            (if truthy biometrics \<and> typeof_object biometrics
             then sections0 @ [plus_str ''## Biometrics\<newline>'' (stringify biometrics)]
             else sections0);
          sections2 =
            (if truthy labs \<and> typeof_object labs
             then sections1 @ [plus_str ''## Labs / Clinical\<newline>'' (stringify labs)]
             else sections1);
          sections3 =
            (if truthy calendar \<and> isArray calendar
             then sections2 @ [plus_str ''## Calendar\<newline>'' (stringify calendar)]
             else if truthy calendar \<and> typeof_object calendar
             then sections2 @ [plus_str ''## Calendar\<newline>'' (stringify calendar)]
             else sections2)
      in if length sections3 \<noteq> 0 then join ''\<newline>\<newline>'' sections3
         else ''No data provided.'')"

text \<open>
  \<open>formatUserDataPayload\<close> of \<^verbatim>\<open>chronos-brain.js\<close>: the labs and calendar values are chosen
  with \<^verbatim>\<open>||\<close>. The result is \<open>None\<close> where \<open>JSON.stringify\<close> yields \<open>undefined\<close>.
\<close>

definition formatUserDataPayload_js :: "jsval \<Rightarrow> string option" where
  "formatUserDataPayload_js userData =
     (if \<not> truthy userData \<or> \<not> typeof_object userData then Some ''No data provided.''
      else
        let biometrics = js_get userData ''biometrics'';
            labs = js_or (js_or (js_get userData ''clinical_markers'')
                                (js_get userData ''clinical_audit''))
                         (js_get userData ''labs'');
            calendar = js_or (js_get userData ''calendar_events'') (js_get userData ''calendar'')
        in if truthy biometrics \<or> truthy labs \<or> truthy calendar
           then Some (formatExecutivePayload biometrics labs calendar)
           else stringify userData)"

text \<open>
  \<open>formatUserDataPayload\<close> of the edge function: the labs and calendar values are chosen
  with \<^verbatim>\<open>??\<close>, and the fallback for no section is the rendering of the whole input.
\<close>

definition formatUserDataPayload_ts :: "jsval \<Rightarrow> string option" where
  "formatUserDataPayload_ts userData =
     (if \<not> truthy userData \<or> \<not> typeof_object userData then Some ''No data provided.''
      else
        let u = userData;
            biometrics = js_get u ''biometrics'';
            labs = js_coalesce (js_coalesce (js_get u ''clinical_markers'')
                                            (js_get u ''clinical_audit''))
                               (js_get u ''labs'');
            calendar = js_coalesce (js_get u ''calendar_events'') (js_get u ''calendar'');
            sections0 = [];
            sections1 =
              (if truthy biometrics \<and> typeof_object biometrics
               then sections0 @ [plus_str ''## Biometrics\<newline>'' (stringify biometrics)]
               else sections0);
            sections2 =
              (if truthy labs \<and> typeof_object labs
               then sections1 @ [plus_str ''## Labs / Clinical\<newline>'' (stringify labs)]
               else sections1);
            sections3 =
              (if isArray calendar
               then sections2 @ [plus_str ''## Calendar\<newline>'' (stringify calendar)]
               else if truthy calendar \<and> typeof_object calendar
               then sections2 @ [plus_str ''## Calendar\<newline>'' (stringify calendar)]
               else sections2)
        in if length sections3 \<noteq> 0 then Some (join ''\<newline>\<newline>'' sections3)
           else stringify userData)"

section \<open>Exceptions\<close>

text \<open>
  A thrown value is an \<open>Error\<close> object: its \<open>name\<close> (\<open>Error\<close>, \<open>TypeError\<close>, \<open>SyntaxError\<close>,
  or the name of one of the client library's error classes) and its \<open>message\<close>. A function
  that can throw returns \<open>js_exn + 'a\<close>, with \<open>Inl\<close> for the thrown error.
\<close>

datatype js_exn = Exn (exn_name: string) (exn_message: string)

text \<open>\<open>String(err)\<close>, that is \<open>Error.prototype.toString\<close>.\<close>

definition exn_to_string :: "js_exn \<Rightarrow> string" where
  "exn_to_string err =
     (if exn_name err = [] then exn_message err
      else if exn_message err = [] then exn_name err
      else exn_name err @ '': '' @ exn_message err)"

section \<open>Dashboard Normalizer\<close>

text \<open>\<open>normalizeForDashboard\<close> of \<^verbatim>\<open>chronos-brain.js\<close>, with its guard for a non-object.\<close>

definition normalizeForDashboard_js :: "jsval \<Rightarrow> jsval" where
  "normalizeForDashboard_js parsed =
     (if \<not> truthy parsed \<or> \<not> typeof_object parsed
      then JObj [(''directive'', JStr []), (''insight'', JStr []),
                 (''statusText'', JStr []), (''protocolLogMessage'', JStr [])]
      else JObj
        [(''directive'',
            js_coalesce (js_coalesce (js_coalesce (js_get parsed ''directive'')
               (js_get parsed ''recommendation'')) (js_get parsed ''summary'')) (JStr [])),
         (''insight'',
            js_coalesce (js_coalesce (js_get parsed ''insight'') (js_get parsed ''analysis''))
               (JStr [])),
         (''statusText'',
            js_coalesce (js_coalesce (js_get parsed ''status'') (js_get parsed ''statusText''))
               (JStr ''Optimal Baseline'')),
         (''protocolLogMessage'',
            js_coalesce (js_coalesce (js_coalesce (js_get parsed ''protocolLogMessage'')
               (js_get parsed ''directive'')) (js_get parsed ''summary'')) (JStr []))])"

text \<open>
  \<open>normalizeForDashboard\<close> of the edge function has no guard: reading \<open>parsed.directive\<close>
  of \<open>null\<close> or \<open>undefined\<close> raises a TypeError, and a primitive has none of the properties.
\<close>

definition normalizeForDashboard_ts :: "jsval \<Rightarrow> js_exn + jsval" where
  "normalizeForDashboard_ts parsed =
     (if nullish parsed
      then Inl (Exn ''TypeError''
             (''Cannot read properties of ''
              @ (if parsed = JNull then ''null'' else ''undefined'')
              @ '' (reading 'directive')''))
      else Inr (JObj
        [(''directive'',
            js_coalesce (js_coalesce (js_coalesce (js_get parsed ''directive'')
               (js_get parsed ''recommendation'')) (js_get parsed ''summary'')) (JStr [])),
         (''insight'',
            js_coalesce (js_coalesce (js_get parsed ''insight'') (js_get parsed ''analysis''))
               (JStr [])),
         (''statusText'',
            js_coalesce (js_coalesce (js_get parsed ''status'') (js_get parsed ''statusText''))
               (JStr ''Optimal Baseline'')),
         (''protocolLogMessage'',
            js_coalesce (js_coalesce (js_coalesce (js_get parsed ''protocolLogMessage'')
               (js_get parsed ''directive'')) (js_get parsed ''summary'')) (JStr []))]))"

section \<open>JSON Parser\<close>

text \<open>
  White space as \<open>String.prototype.trim\<close> and the regular expression class for white space
  see it (the two use the same set: the white space and the line terminators of the
  language). Among the code units below 256 these are tab, line feed, vertical tab, form
  feed, carriage return, space and the no-break space \<open>U+00A0\<close>. The next-line character
  \<open>U+0085\<close> is not among them.
\<close>

definition is_space :: "char \<Rightarrow> bool" where
  "is_space c = (c = CHR 0x09 \<or> c = CHR 0x0A \<or> c = CHR 0x0B \<or> c = CHR 0x0C
                 \<or> c = CHR 0x0D \<or> c = CHR 0x20 \<or> c = CHR 0xA0)"

definition trim :: "string \<Rightarrow> string" where
  "trim s = rev (dropWhile is_space (rev (dropWhile is_space s)))"

text \<open>
  The first occurrence of \<open>pat\<close> in \<open>s\<close>: the text before it and the text after it.
\<close>

fun find_sub :: "string \<Rightarrow> string \<Rightarrow> (string \<times> string) option" where
  "find_sub pat [] = (if pat = [] then Some ([], []) else None)"
| "find_sub pat (c # cs) =
     (if take (length pat) (c # cs) = pat then Some ([], drop (length pat) (c # cs))
      else (case find_sub pat cs of
              None \<Rightarrow> None
            | Some (before, after) \<Rightarrow> Some (c # before, after)))"

text \<open>
  The regular expression match of \<open>parseAssistantJson\<close> on the trimmed text (a fence of three
  backticks, an optional tag \<open>json\<close>, white space, a lazy capture group, a fence), giving
  capture group 1 of the match. The match starts at the leftmost fence; the greedy tag and
  white space take the tag and all white space after it (giving any of it back cannot
  create a closing fence, since neither holds a backtick); the lazy group then stops at the
  first fence that follows. When no fence follows, no later start can match either, and the
  result is \<open>null\<close>.
\<close>

definition code_match :: "string \<Rightarrow> string option" where
  "code_match trimmed =
     (case find_sub ''```'' trimmed of
        None \<Rightarrow> None
      | Some (before, rest) \<Rightarrow>
          let rest1 = (if take 4 rest = ''json'' then drop 4 rest else rest);
              rest2 = dropWhile is_space rest1
          in (case find_sub ''```'' rest2 of
                None \<Rightarrow> None
              | Some (group1, after) \<Rightarrow> Some group1))"

text \<open>
  \<open>parseAssistantJson\<close>, the same in both files. \<open>JSON.parse\<close> belongs to the runtime and is
  the parameter \<open>json_parse\<close>: it returns the parsed value or raises a SyntaxError.
\<close>

definition parseAssistantJson :: "(string \<Rightarrow> js_exn + jsval) \<Rightarrow> string \<Rightarrow> js_exn + jsval" where
  "parseAssistantJson json_parse txt =
     (let trimmed = trim txt;
          codeMatch = code_match trimmed;
          raw = (case codeMatch of Some group1 \<Rightarrow> trim group1 | None \<Rightarrow> trimmed)
      in json_parse raw)"

section \<open>The assistant service\<close>

text \<open>
  A message of a thread, as the client library returns it: its role and its content parts.
  A part has a type tag and, when it has a truthy \<open>text\<close> property, the \<open>value\<close> that
  property holds (any JavaScript value).
\<close>

record part =
  part_type :: string
  part_text :: "jsval option"

record message =
  msg_role :: string
  msg_content :: "part list option"

text \<open>
  One behaviour of the service and of the clock, for one analysis: what each call answers
  (a value, or a thrown error), the status the \<open>k\<close>-th poll of the run reads, and the
  \<open>k\<close>-th reading of \<open>Date.now()\<close>.
\<close>

record service =
  threads_create :: "js_exn + string"
  messages_create :: "string \<Rightarrow> string option \<Rightarrow> js_exn + unit"
  runs_create :: "string \<Rightarrow> string \<Rightarrow> js_exn + string"
  runs_retrieve :: "string \<Rightarrow> string \<Rightarrow> nat \<Rightarrow> js_exn + string"
  messages_list :: "string \<Rightarrow> js_exn + message list"
  date_now :: "nat \<Rightarrow> int"

text \<open>What an analysis does to the outside, in order.\<close>

datatype event =
    ThreadsCreate
  | MessagesCreate string "string option"
  | RunsCreate string string
  | RunsRetrieve string string
  | MessagesList string string nat
  | SetTimeout int
  | ConsoleError string string

fun outbound :: "event \<Rightarrow> bool" where
  "outbound (SetTimeout ms) = False"
| "outbound (ConsoleError label msg) = False"
| "outbound ev = True"

definition assistantId :: string where
  "assistantId = ''asst_idrCrYpx7nA42iEL0HJNRQNQ''"

section \<open>Run Orchestrator: the poll loop\<close>

text \<open>
  The \<open>while\<close> loop of \<open>waitForRun\<close>, the same in both files, at its \<open>i\<close>-th iteration:
  the loop condition takes reading \<open>i + 1\<close> of the clock (reading 0 is \<open>startedAt\<close>), then
  the run is retrieved. The loop need not end (a clock that stands still, a status that is
  never terminal), so its result is an \<open>option\<close>: \<open>None\<close> when it runs forever. A returned
  run is represented by its status.
\<close>

partial_function (option) waitForRun_loop ::
  "service \<Rightarrow> string \<Rightarrow> string \<Rightarrow> int \<Rightarrow> int \<Rightarrow> int \<Rightarrow> nat \<Rightarrow> event list
     \<Rightarrow> ((js_exn + string) \<times> event list) option"
where
  "waitForRun_loop svc threadId runId maxWaitMs pollIntervalMs startedAt i tr =
     (if date_now svc (Suc i) - startedAt < maxWaitMs then
        (case runs_retrieve svc threadId runId i of
           Inl err \<Rightarrow> Some (Inl err, tr @ [RunsRetrieve threadId runId])
         | Inr status \<Rightarrow>
             if status = ''completed'' then Some (Inr status, tr @ [RunsRetrieve threadId runId])
             else if status = ''failed'' \<or> status = ''cancelled'' \<or> status = ''expired''
             then Some (Inl (Exn ''Error'' (''Run ended with status: '' @ status)),
                        tr @ [RunsRetrieve threadId runId])
             else waitForRun_loop svc threadId runId maxWaitMs pollIntervalMs startedAt (Suc i)
                    (tr @ [RunsRetrieve threadId runId, SetTimeout pollIntervalMs]))
      else Some (Inl (Exn ''Error'' ''Run did not complete within max wait time''), tr))"

text \<open>
  \<open>waitForRun\<close> of \<^verbatim>\<open>chronos-brain.js\<close>: the options default with \<^verbatim>\<open>??\<close>; it returns the run.
\<close>

definition waitForRun_js ::
  "service \<Rightarrow> string \<Rightarrow> string \<Rightarrow> int option \<Rightarrow> int option \<Rightarrow> event list
     \<Rightarrow> ((js_exn + string) \<times> event list) option"
where
  "waitForRun_js svc threadId runId opt_maxWaitMs opt_pollIntervalMs tr =
     (let maxWaitMs = (case opt_maxWaitMs of Some m \<Rightarrow> m | None \<Rightarrow> 120000);
          pollIntervalMs = (case opt_pollIntervalMs of Some p \<Rightarrow> p | None \<Rightarrow> 1500);
          startedAt = date_now svc 0
      in waitForRun_loop svc threadId runId maxWaitMs pollIntervalMs startedAt 0 tr)"

text \<open>
  \<open>waitForRun\<close> of the edge function: default parameters; it returns nothing.
\<close>

definition waitForRun_ts ::
  "service \<Rightarrow> string \<Rightarrow> string \<Rightarrow> int option \<Rightarrow> int option \<Rightarrow> event list
     \<Rightarrow> ((js_exn + unit) \<times> event list) option"
where
  "waitForRun_ts svc threadId runId opt_maxWaitMs opt_pollIntervalMs tr =
     (let maxWaitMs = (case opt_maxWaitMs of Some m \<Rightarrow> m | None \<Rightarrow> 120000);
          pollIntervalMs = (case opt_pollIntervalMs of Some p \<Rightarrow> p | None \<Rightarrow> 1500);
          startedAt = date_now svc 0
      in (case waitForRun_loop svc threadId runId maxWaitMs pollIntervalMs startedAt 0 tr of
            None \<Rightarrow> None
          | Some (Inl err, tr') \<Rightarrow> Some (Inl err, tr')
          | Some (Inr run, tr') \<Rightarrow> Some (Inr (), tr')))"

section \<open>Response Extractor\<close>

text \<open>
  \<open>getLatestAssistantMessage\<close> of \<^verbatim>\<open>chronos-brain.js\<close>, after the list has arrived.
\<close>

definition latest_text_js :: "message list \<Rightarrow> js_exn + string" where
  "latest_text_js data =
     (case find (\<lambda>m. msg_role m = ''assistant'') data of
        None \<Rightarrow> Inl (Exn ''Error'' ''No assistant message in thread'')
      | Some assistantMessage \<Rightarrow>
          (case msg_content assistantMessage of
             None \<Rightarrow> Inl (Exn ''Error'' ''No assistant message in thread'')
           | Some content \<Rightarrow>
               if length content = 0
               then Inl (Exn ''Error'' ''No assistant message in thread'')
               else
                 (case find (\<lambda>p. part_type p = ''text'') content of
                    None \<Rightarrow> Inl (Exn ''Error'' ''No text content in assistant message'')
                  | Some p \<Rightarrow>
                      (case part_text p of
                         None \<Rightarrow> Inl (Exn ''Error'' ''No text content in assistant message'')
                       | Some v \<Rightarrow>
                           (case v of
                              JStr s \<Rightarrow> Inr s
                            | _ \<Rightarrow> Inl (Exn ''Error''
                                       ''No text content in assistant message''))))))"

definition getLatestAssistantMessage_js ::
  "service \<Rightarrow> string \<Rightarrow> event list \<Rightarrow> (js_exn + string) \<times> event list"
where
  "getLatestAssistantMessage_js svc threadId tr =
     (case messages_list svc threadId of
        Inl err \<Rightarrow> (Inl err, tr @ [MessagesList threadId ''desc'' 10])
      | Inr data \<Rightarrow> (latest_text_js data, tr @ [MessagesList threadId ''desc'' 10]))"

text \<open>
  \<open>getLatestAssistantMessage\<close> of the edge function: a message without a text part is
  refused by the first test already.
\<close>

definition latest_text_ts :: "message list \<Rightarrow> js_exn + string" where
  "latest_text_ts data =
     (case find (\<lambda>m. msg_role m = ''assistant'') data of
        None \<Rightarrow> Inl (Exn ''Error'' ''No assistant message in thread'')
      | Some assistantMessage \<Rightarrow>
          (case msg_content assistantMessage of
             None \<Rightarrow> Inl (Exn ''Error'' ''No assistant message in thread'')
           | Some content \<Rightarrow>
               if length content = 0 \<or> \<not> list_ex (\<lambda>p. part_type p = ''text'') content
               then Inl (Exn ''Error'' ''No assistant message in thread'')
               else
                 (let txt = (case find (\<lambda>p. part_type p = ''text'') content of
                               None \<Rightarrow> JNull
                             | Some p \<Rightarrow>
                                 (case part_text p of None \<Rightarrow> JUndefined | Some v \<Rightarrow> v))
                  in (case txt of
                        JStr s \<Rightarrow> Inr s
                      | _ \<Rightarrow> Inl (Exn ''Error''
                                 ''No text content in assistant message'')))))"

definition getLatestAssistantMessage_ts ::
  "service \<Rightarrow> string \<Rightarrow> event list \<Rightarrow> (js_exn + string) \<times> event list"
where
  "getLatestAssistantMessage_ts svc threadId tr =
     (case messages_list svc threadId of
        Inl err \<Rightarrow> (Inl err, tr @ [MessagesList threadId ''desc'' 10])
      | Inr data \<Rightarrow> (latest_text_ts data, tr @ [MessagesList threadId ''desc'' 10]))"

section \<open>Fallback Policy: \<open>runProtocolAnalysis\<close>\<close>

text \<open>
  \<open>getClient\<close> of \<^verbatim>\<open>chronos-brain.js\<close>. The credential is the value of the environment
  variable (\<open>None\<close> when it is not set). The client handle itself carries no behaviour of
  its own here: the service answers are in \<open>service\<close>.
\<close>

definition getClient :: "string option \<Rightarrow> js_exn + unit" where
  "getClient OPENAI_API_KEY =
     (if OPENAI_API_KEY = None \<or> OPENAI_API_KEY = Some []
      then Inl (Exn ''Error'' ''OPENAI_API_KEY is not set'')
      else Inr ())"

definition PROTOCOL_CACHED_FALLBACK :: "(string \<times> jsval) list" where
  "PROTOCOL_CACHED_FALLBACK =
     [(''protocolCached'', JBool True),
      (''message'', JStr ''Protocol Cached''),
      (''status'', JStr ''cached''),
      (''directive'', JStr ''Using last known protocol. AI temporarily unavailable.''),
      (''insight'', JStr []),
      (''data'', JNull)]"

text \<open>
  The \<open>try\<close> block of \<open>runProtocolAnalysis\<close> in \<^verbatim>\<open>chronos-brain.js\<close>: each \<open>await\<close> either
  yields a value or throws, and a throw leaves the block.
\<close>

definition analysis_js ::
  "(string \<Rightarrow> js_exn + jsval) \<Rightarrow> string option \<Rightarrow> service \<Rightarrow> jsval
     \<Rightarrow> ((js_exn + jsval) \<times> event list) option"
where
  "analysis_js json_parse OPENAI_API_KEY svc userData =
     (case getClient OPENAI_API_KEY of
        Inl err \<Rightarrow> Some (Inl err, [])
      | Inr openai \<Rightarrow>
     let payload = formatUserDataPayload_js userData in
     (case threads_create svc of
        Inl err \<Rightarrow> Some (Inl err, [ThreadsCreate])
      | Inr thread \<Rightarrow>
     (case messages_create svc thread payload of
        Inl err \<Rightarrow> Some (Inl err, [ThreadsCreate, MessagesCreate thread payload])
      | Inr u \<Rightarrow>
     (case runs_create svc thread assistantId of
        Inl err \<Rightarrow>
          Some (Inl err, [ThreadsCreate, MessagesCreate thread payload,
                          RunsCreate thread assistantId])
      | Inr run \<Rightarrow>
     (case waitForRun_js svc thread run None None
             [ThreadsCreate, MessagesCreate thread payload, RunsCreate thread assistantId] of
        None \<Rightarrow> None
      | Some (Inl err, tr) \<Rightarrow> Some (Inl err, tr)
      | Some (Inr completed, tr) \<Rightarrow>
     (case getLatestAssistantMessage_js svc thread tr of
        (Inl err, tr') \<Rightarrow> Some (Inl err, tr')
      | (Inr txt, tr') \<Rightarrow>
     (case parseAssistantJson json_parse txt of
        Inl err \<Rightarrow> Some (Inl err, tr')
      | Inr parsed \<Rightarrow>
     let forDashboard = normalizeForDashboard_js parsed in
     Some (Inr (JObj
             [(''protocolCached'', JBool False),
              (''status'', JStr ''completed''),
              (''data'', parsed),
              (''rawText'', JStr txt),
              (''directive'', js_get forDashboard ''directive''),
              (''insight'', js_get forDashboard ''insight''),
              (''statusText'', js_get forDashboard ''statusText''),
              (''protocolLogMessage'', js_get forDashboard ''protocolLogMessage'')]),
           tr'))))))))"

text \<open>
  \<open>runProtocolAnalysis\<close> of \<^verbatim>\<open>chronos-brain.js\<close>: the \<open>catch\<close> clause logs and returns the
  fallback object with the error text, \<^verbatim>\<open>err.message || String(err)\<close>.
\<close>

definition runProtocolAnalysis_js ::
  "(string \<Rightarrow> js_exn + jsval) \<Rightarrow> string option \<Rightarrow> service \<Rightarrow> jsval
     \<Rightarrow> ((js_exn + jsval) \<times> event list) option"
where
  "runProtocolAnalysis_js json_parse OPENAI_API_KEY svc userData =
     (case analysis_js json_parse OPENAI_API_KEY svc userData of
        None \<Rightarrow> None
      | Some (Inr result, tr) \<Rightarrow> Some (Inr result, tr)
      | Some (Inl err, tr) \<Rightarrow>
          Some (Inr (JObj (PROTOCOL_CACHED_FALLBACK @
                  [(''error'', JStr (if exn_message err \<noteq> [] then exn_message err
                                     else exn_to_string err))])),
                tr @ [ConsoleError ''Chronos Brain runProtocolAnalysis error:''
                        (if exn_message err \<noteq> [] then exn_message err
                         else exn_to_string err)]))"

text \<open>The \<open>try\<close> block of \<open>runProtocolAnalysis\<close> in the edge function.\<close>

definition analysis_ts ::
  "(string \<Rightarrow> js_exn + jsval) \<Rightarrow> service \<Rightarrow> jsval
     \<Rightarrow> ((js_exn + jsval) \<times> event list) option"
where
  "analysis_ts json_parse svc userData =
     (let payload = formatUserDataPayload_ts userData in
     (case threads_create svc of
        Inl err \<Rightarrow> Some (Inl err, [ThreadsCreate])
      | Inr thread \<Rightarrow>
     (case messages_create svc thread payload of
        Inl err \<Rightarrow> Some (Inl err, [ThreadsCreate, MessagesCreate thread payload])
      | Inr u \<Rightarrow>
     (case runs_create svc thread assistantId of
        Inl err \<Rightarrow>
          Some (Inl err, [ThreadsCreate, MessagesCreate thread payload,
                          RunsCreate thread assistantId])
      | Inr run \<Rightarrow>
     (case waitForRun_ts svc thread run None None
             [ThreadsCreate, MessagesCreate thread payload, RunsCreate thread assistantId] of
        None \<Rightarrow> None
      | Some (Inl err, tr) \<Rightarrow> Some (Inl err, tr)
      | Some (Inr u', tr) \<Rightarrow>
     (case getLatestAssistantMessage_ts svc thread tr of
        (Inl err, tr') \<Rightarrow> Some (Inl err, tr')
      | (Inr txt, tr') \<Rightarrow>
     (case parseAssistantJson json_parse txt of
        Inl err \<Rightarrow> Some (Inl err, tr')
      | Inr parsed \<Rightarrow>
     (case normalizeForDashboard_ts parsed of
        Inl err \<Rightarrow> Some (Inl err, tr')
      | Inr forDashboard \<Rightarrow>
     Some (Inr (JObj
             [(''protocolCached'', JBool False),
              (''status'', JStr ''completed''),
              (''data'', parsed),
              (''rawText'', JStr txt),
              (''directive'', js_get forDashboard ''directive''),
              (''insight'', js_get forDashboard ''insight''),
              (''statusText'', js_get forDashboard ''statusText''),
              (''protocolLogMessage'', js_get forDashboard ''protocolLogMessage'')]),
           tr')))))))))"

text \<open>
  \<open>runProtocolAnalysis\<close> of the edge function: without a credential it returns at once;
  otherwise the \<open>catch\<close> clause turns a thrown error into the cached object.
\<close>

definition runProtocolAnalysis_ts ::
  "(string \<Rightarrow> js_exn + jsval) \<Rightarrow> string option \<Rightarrow> service \<Rightarrow> jsval
     \<Rightarrow> ((js_exn + jsval) \<times> event list) option"
where
  "runProtocolAnalysis_ts json_parse apiKey svc userData =
     (if apiKey = None \<or> apiKey = Some []
      then Some (Inr (JObj
             [(''protocolCached'', JBool True),
              (''message'', JStr ''Protocol Cached''),
              (''status'', JStr ''cached''),
              (''directive'', JStr ''Using last known protocol. OPENAI_API_KEY not set.''),
              (''insight'', JStr []),
              (''statusText'', JStr ''Protocol Cached''),
              (''protocolLogMessage'', JStr []),
              (''error'', JStr ''OPENAI_API_KEY not set'')]), [])
      else
        (case analysis_ts json_parse svc userData of
           None \<Rightarrow> None
         | Some (Inr result, tr) \<Rightarrow> Some (Inr result, tr)
         | Some (Inl err, tr) \<Rightarrow>
             (let message = exn_message err in
              Some (Inr (JObj
                     [(''protocolCached'', JBool True),
                      (''message'', JStr ''Protocol Cached''),
                      (''status'', JStr ''cached''),
                      (''directive'',
                         JStr ''Using last known protocol. AI temporarily unavailable.''),
                      (''insight'', JStr []),
                      (''statusText'', JStr ''Protocol Cached''),
                      (''protocolLogMessage'', JStr []),
                      (''error'', JStr message)]),
                    tr @ [ConsoleError ''Protocol analysis error:'' message]))))"

section \<open>Notions used in the statements\<close>

text \<open>
  A value the source accepts as an object: truthy and of type \<open>object\<close>, that is an object
  or an array.
\<close>

definition is_object :: "jsval \<Rightarrow> bool" where
  "is_object v = (truthy v \<and> typeof_object v)"

text \<open>
  The first value of a list that is present, that is neither \<open>null\<close> nor \<open>undefined\<close>, and
  a default when there is none.
\<close>

definition first_present :: "jsval list \<Rightarrow> jsval \<Rightarrow> jsval" where
  "first_present vs dflt = (case find (\<lambda>v. \<not> nullish v) vs of Some v \<Rightarrow> v | None \<Rightarrow> dflt)"

definition string_or_absent :: "jsval \<Rightarrow> bool" where
  "string_or_absent v = (typeof_string v \<or> nullish v)"

definition normalized_keys :: "string list" where
  "normalized_keys = [''directive'', ''insight'', ''statusText'', ''protocolLogMessage'']"

definition consulted_keys :: "string list" where
  "consulted_keys = [''directive'', ''recommendation'', ''summary'', ''insight'', ''analysis'',
                     ''status'', ''statusText'', ''protocolLogMessage'']"


text \<open>The two errors of the Response Extractor.\<close>

definition MessageNotFound :: js_exn where
  "MessageNotFound = Exn ''Error'' ''No assistant message in thread''"

definition NoTextContent :: js_exn where
  "NoTextContent = Exn ''Error'' ''No text content in assistant message''"

definition is_assistant :: "message \<Rightarrow> bool" where
  "is_assistant m = (msg_role m = ''assistant'')"

definition is_text_part :: "part \<Rightarrow> bool" where
  "is_text_part p = (part_type p = ''text'')"

text \<open>\<open>m\<close> is the first element of \<open>xs\<close> that satisfies \<open>P\<close>.\<close>

definition first_where :: "('a \<Rightarrow> bool) \<Rightarrow> 'a list \<Rightarrow> 'a \<Rightarrow> bool" where
  "first_where P xs m = (\<exists>pre post. xs = pre @ m # post \<and> \<not> list_ex P pre \<and> P m)"


text \<open>
  The first truthy value of a list, and a default when there is none (the value of a chain
  of \<^verbatim>\<open>||\<close>).
\<close>

definition first_truthy :: "jsval list \<Rightarrow> jsval \<Rightarrow> jsval" where
  "first_truthy vs dflt = (case find truthy vs of Some v \<Rightarrow> v | None \<Rightarrow> dflt)"

text \<open>
  The section of the payload for a value: its title line and its rendering when the value
  is an object, nothing otherwise; and the sections of a payload in their fixed order.
\<close>

definition section_of :: "string \<Rightarrow> jsval \<Rightarrow> string list" where
  "section_of title v = (if is_object v then [plus_str title (stringify v)] else [])"

definition sections_of :: "jsval \<Rightarrow> jsval \<Rightarrow> jsval \<Rightarrow> string list" where
  "sections_of biometrics labs calendar =
     section_of ''## Biometrics\<newline>'' biometrics
     @ section_of ''## Labs / Clinical\<newline>'' labs
     @ section_of ''## Calendar\<newline>'' calendar"

definition absent_or_object :: "jsval \<Rightarrow> bool" where
  "absent_or_object v = (nullish v \<or> is_object v)"

definition payload_keys :: "string list" where
  "payload_keys = [''biometrics'', ''clinical_markers'', ''clinical_audit'', ''labs'',
                   ''calendar_events'', ''calendar'']"




text \<open>
  The text the JSON Parser hands to \<open>JSON.parse\<close>: the trimmed content of the first fenced
  block of the trimmed text, or the trimmed text when it has no fenced block.
\<close>

definition selected_text :: "string \<Rightarrow> string" where
  "selected_text txt =
     (case code_match (trim txt) of Some group1 \<Rightarrow> trim group1 | None \<Rightarrow> trim txt)"

text \<open>
  The fenced reply of the specification's example, its content, and a \<open>JSON.parse\<close> that
  knows the two texts used in the examples and refuses everything else.
\<close>

definition dq :: string where
  "dq = [CHR 0x22]"

definition fenced_reply :: string where
  "fenced_reply = ''```json\<newline>{'' @ dq @ ''directive'' @ dq @ '':'' @ dq @ ''Rest today'' @ dq
                  @ ''}\<newline>```''"

definition fenced_content :: string where
  "fenced_content = ''{'' @ dq @ ''directive'' @ dq @ '':'' @ dq @ ''Rest today'' @ dq @ ''}''"

definition parse_table :: "string \<Rightarrow> js_exn + jsval" where
  "parse_table s =
     (if s = fenced_content then Inr (JObj [(''directive'', JStr ''Rest today'')])
      else if s = ''{}'' then Inr (JObj [])
      else Inl (Exn ''SyntaxError'' ''Unexpected token''))"


text \<open>
  The statuses that end the poll loop; \<open>continues\<close>: at iteration \<open>j\<close> the loop condition
  holds and the read yields a status that is not terminal, so the loop sleeps and goes on.
\<close>

definition terminal :: "string \<Rightarrow> bool" where
  "terminal status = (status = ''completed'' \<or> status = ''failed'' \<or> status = ''cancelled''
                      \<or> status = ''expired'')"

definition abnormal :: "string \<Rightarrow> bool" where
  "abnormal status = (status = ''failed'' \<or> status = ''cancelled'' \<or> status = ''expired'')"

definition continues :: "service \<Rightarrow> string \<Rightarrow> string \<Rightarrow> int \<Rightarrow> int \<Rightarrow> nat \<Rightarrow> bool" where
  "continues svc threadId runId maxWaitMs startedAt j =
     (date_now svc (Suc j) - startedAt < maxWaitMs
      \<and> (\<exists>status. runs_retrieve svc threadId runId j = Inr status \<and> \<not> terminal status))"

text \<open>
  \<open>within\<close>: the loop condition of \<open>waitForRun\<close> holds at iteration \<open>i\<close>, that is the
  maximum wait has not elapsed when the \<open>i\<close>-th read is issued. \<open>clock_advances\<close>: the clock
  does not run backwards and each sleep lasts at least the poll interval.
\<close>

definition within :: "service \<Rightarrow> int \<Rightarrow> nat \<Rightarrow> bool" where
  "within svc maxWaitMs i = (date_now svc (Suc i) - date_now svc 0 < maxWaitMs)"

definition clock_advances :: "service \<Rightarrow> int \<Rightarrow> bool" where
  "clock_advances svc pollIntervalMs =
     (date_now svc 0 \<le> date_now svc (Suc 0)
      \<and> (\<forall>i. date_now svc (Suc i) + pollIntervalMs \<le> date_now svc (Suc (Suc i))))"

definition default_maxWaitMs :: "int option \<Rightarrow> int" where
  "default_maxWaitMs opt = (case opt of Some m \<Rightarrow> m | None \<Rightarrow> 120000)"

definition default_pollIntervalMs :: "int option \<Rightarrow> int" where
  "default_pollIntervalMs opt = (case opt of Some p \<Rightarrow> p | None \<Rightarrow> 1500)"

text \<open>
  A service for the examples: every call succeeds, the run reads the given statuses, the
  thread lists the given messages, and the clock reads 1000, 2500, 4000, ...
\<close>

definition demo_statuses :: "nat \<Rightarrow> string" where
  "demo_statuses i = (if i < 2 then ''in_progress'' else ''completed'')"

definition demo_service :: "(nat \<Rightarrow> string) \<Rightarrow> (js_exn + message list) \<Rightarrow> service" where
  "demo_service st msgs =
     \<lparr>threads_create = Inr ''thread_1'',
      messages_create = (\<lambda>threadId content. Inr ()),
      runs_create = (\<lambda>threadId assistant. Inr ''run_1''),
      runs_retrieve = (\<lambda>threadId runId i. Inr (st i)),
      messages_list = (\<lambda>threadId. msgs),
      date_now = (\<lambda>k. 1000 + 1500 * int k)\<rparr>"

text \<open>The events of \<open>k\<close> iterations that read the run and sleep.\<close>

definition poll_events :: "string \<Rightarrow> string \<Rightarrow> int \<Rightarrow> nat \<Rightarrow> event list" where
  "poll_events threadId runId pollIntervalMs k =
     concat (replicate k [RunsRetrieve threadId runId, SetTimeout pollIntervalMs])"

definition RunTimeout :: js_exn where
  "RunTimeout = Exn ''Error'' ''Run did not complete within max wait time''"

definition RunTerminatedAbnormally :: "string \<Rightarrow> js_exn" where
  "RunTerminatedAbnormally status = Exn ''Error'' (''Run ended with status: '' @ status)"

text \<open>What the loop decides at an iteration at which it does not continue.\<close>

definition decision ::
  "service \<Rightarrow> string \<Rightarrow> string \<Rightarrow> int \<Rightarrow> int \<Rightarrow> nat \<Rightarrow> event list
     \<Rightarrow> (js_exn + string) \<times> event list" where
  "decision svc threadId runId maxWaitMs startedAt n tr =
     (if \<not> date_now svc (Suc n) - startedAt < maxWaitMs then (Inl RunTimeout, tr)
      else (case runs_retrieve svc threadId runId n of
              Inl err \<Rightarrow> (Inl err, tr @ [RunsRetrieve threadId runId])
            | Inr status \<Rightarrow>
                if status = ''completed'' then (Inr status, tr @ [RunsRetrieve threadId runId])
                else (Inl (RunTerminatedAbnormally status), tr @ [RunsRetrieve threadId runId])))"


text \<open>
  The messages of the example thread, newest first: the assistant's fenced reply and the
  user's payload.
\<close>

definition demo_messages :: "message list" where
  "demo_messages =
     [\<lparr>msg_role = ''assistant'',
       msg_content = Some [\<lparr>part_type = ''text'', part_text = Some (JStr fenced_reply)\<rparr>]\<rparr>,
      \<lparr>msg_role = ''user'',
       msg_content = Some [\<lparr>part_type = ''text'', part_text = Some (JStr ''No data provided.'')\<rparr>]\<rparr>]"

text \<open>
  The error text \<^verbatim>\<open>chronos-brain.js\<close> reports for a caught error, the two key lists of the
  result objects, and the two outcomes.
\<close>

definition error_text_js :: "js_exn \<Rightarrow> string" where
  "error_text_js err = (if exn_message err \<noteq> [] then exn_message err else exn_to_string err)"

definition completed_keys :: "string list" where
  "completed_keys = [''protocolCached'', ''status'', ''data'', ''rawText'', ''directive'',
                     ''insight'', ''statusText'', ''protocolLogMessage'']"

definition cached_keys_ts :: "string list" where
  "cached_keys_ts = [''protocolCached'', ''message'', ''status'', ''directive'', ''insight'',
                     ''statusText'', ''protocolLogMessage'', ''error'']"

definition cached_keys_common :: "string list" where
  "cached_keys_common = [''protocolCached'', ''message'', ''status'', ''directive'', ''insight'',
                         ''error'']"

definition is_completed :: "jsval \<Rightarrow> bool" where
  "is_completed r = (js_get r ''status'' = JStr ''completed''
                     \<and> js_get r ''protocolCached'' = JBool False)"

definition is_cached :: "jsval \<Rightarrow> bool" where
  "is_cached r = (js_get r ''status'' = JStr ''cached''
                  \<and> js_get r ''protocolCached'' = JBool True)"

definition no_credential :: "string option \<Rightarrow> bool" where
  "no_credential k = (k = None \<or> k = Some [])"

text \<open>The result object of a completed analysis, and the cached object of the edge function.\<close>

definition completed_object :: "jsval \<Rightarrow> string \<Rightarrow> jsval \<Rightarrow> jsval" where
  "completed_object parsed txt forDashboard =
     JObj [(''protocolCached'', JBool False),
           (''status'', JStr ''completed''),
           (''data'', parsed),
           (''rawText'', JStr txt),
           (''directive'', js_get forDashboard ''directive''),
           (''insight'', js_get forDashboard ''insight''),
           (''statusText'', js_get forDashboard ''statusText''),
           (''protocolLogMessage'', js_get forDashboard ''protocolLogMessage'')]"

definition cached_object_ts :: "string \<Rightarrow> string \<Rightarrow> jsval" where
  "cached_object_ts directive message =
     JObj [(''protocolCached'', JBool True),
           (''message'', JStr ''Protocol Cached''),
           (''status'', JStr ''cached''),
           (''directive'', JStr directive),
           (''insight'', JStr []),
           (''statusText'', JStr ''Protocol Cached''),
           (''protocolLogMessage'', JStr []),
           (''error'', JStr message)]"

section \<open>Lemmas on the normalizer\<close>

lemma js_get_filter:
  "js_get (JObj (filter (\<lambda>p. fst p \<noteq> k) kvs)) k' =
     (if k' = k then JUndefined else js_get (JObj kvs) k')"
  by (induction kvs) (auto split: option.splits)

lemma is_object_not_nullish: "is_object v \<Longrightarrow> \<not> nullish v"
  by (cases v) (simp_all add: is_object_def)

lemma normalize_ts_object:
  "is_object parsed \<Longrightarrow> normalizeForDashboard_ts parsed = Inr (normalizeForDashboard_js parsed)"
  by (simp add: normalizeForDashboard_ts_def normalizeForDashboard_js_def is_object_def
      is_object_not_nullish)

lemma normalize_js_fields:
  assumes "is_object parsed"
  shows "normalizeForDashboard_js parsed = JObj
    [(''directive'', first_present [js_get parsed ''directive'', js_get parsed ''recommendation'',
                                    js_get parsed ''summary''] (JStr [])),
     (''insight'', first_present [js_get parsed ''insight'', js_get parsed ''analysis''] (JStr [])),
     (''statusText'', first_present [js_get parsed ''status'', js_get parsed ''statusText'']
                        (JStr ''Optimal Baseline'')),
     (''protocolLogMessage'', first_present [js_get parsed ''protocolLogMessage'',
                                js_get parsed ''directive'', js_get parsed ''summary''] (JStr []))]"
  using assms by (simp add: normalizeForDashboard_js_def is_object_def js_coalesce_def first_present_def)

lemma normalize_js_drop_nullish:
  assumes "nullish (js_get (JObj kvs) k)"
  shows "normalizeForDashboard_js (JObj kvs) =
         normalizeForDashboard_js (JObj (filter (\<lambda>p. fst p \<noteq> k) kvs))"
  using assms
  unfolding normalizeForDashboard_js_def
  by (auto simp add: js_get_filter js_coalesce_def simp del: js_get.simps)

lemma first_present_not_nullish: "\<not> nullish d \<Longrightarrow> \<not> nullish (first_present vs d)"
  by (induction vs) (auto simp add: first_present_def)

lemma first_present_string:
  "typeof_string d \<Longrightarrow> \<forall>v\<in>set vs. string_or_absent v \<Longrightarrow> typeof_string (first_present vs d)"
  by (induction vs) (auto simp add: first_present_def string_or_absent_def)

section \<open>Lemmas on the Response Extractor\<close>

lemma find_first_where: "first_where P xs m \<Longrightarrow> find P xs = Some m"
proof -
  have "\<not> list_ex P pre \<Longrightarrow> P m \<Longrightarrow> find P (pre @ m # post) = Some m" for pre post
    by (induction pre) auto
  then show "first_where P xs m \<Longrightarrow> find P xs = Some m"
    by (auto simp add: first_where_def)
qed

lemma find_none: "\<not> list_ex P xs \<Longrightarrow> find P xs = None"
  by (induction xs) auto

lemma first_where_ex: "first_where P xs m \<Longrightarrow> list_ex P xs"
  by (auto simp add: first_where_def list_ex_iff)

lemma is_assistant_eq: "is_assistant = (\<lambda>m. msg_role m = ''assistant'')"
  by (rule ext) (simp add: is_assistant_def)

lemma is_text_part_eq: "is_text_part = (\<lambda>p. part_type p = ''text'')"
  by (rule ext) (simp add: is_text_part_def)

section \<open>Lemmas on the Payload Formatter\<close>

lemma serialize_object_nonempty:
  "is_object v \<Longrightarrow> \<exists>s. serialize d v = Some s \<and> s \<noteq> []"
  by (cases v) (auto simp add: is_object_def Let_def)

lemma stringify_object_nonempty:
  "is_object v \<Longrightarrow> \<exists>s. stringify v = Some s \<and> s \<noteq> []"
  by (simp add: stringify_def serialize_object_nonempty)

lemma join_nonempty: "x \<noteq> [] \<Longrightarrow> join sep (x # xs) \<noteq> []"
  by (cases xs) auto

lemma plus_str_nonempty: "t \<noteq> [] \<Longrightarrow> plus_str t x \<noteq> []"
  by (simp add: plus_str_def split: option.splits)

lemma sections_of_nonempty_strings: "s \<in> set (sections_of b l c) \<Longrightarrow> s \<noteq> []"
  using plus_str_nonempty [of "''## Biometrics\<newline>''" "stringify b"]
    plus_str_nonempty [of "''## Labs / Clinical\<newline>''" "stringify l"]
    plus_str_nonempty [of "''## Calendar\<newline>''" "stringify c"]
  by (auto simp add: sections_of_def section_of_def split: if_splits)

lemma join_sections_nonempty: "sections_of b l c \<noteq> [] \<Longrightarrow> join sep (sections_of b l c) \<noteq> []"
  using sections_of_nonempty_strings [of _ b l c] join_nonempty
  by (cases "sections_of b l c") auto

lemma js_or_first: "js_or (js_or a b) c = first_truthy [a, b] c"
  by (simp add: js_or_def first_truthy_def)

lemma js_or_first1: "js_or a c = first_truthy [a] c"
  by (simp add: js_or_def first_truthy_def)

lemma js_coalesce_first: "js_coalesce (js_coalesce a b) c = first_present [a, b] c"
  by (simp add: js_coalesce_def first_present_def)

lemma js_coalesce_first1: "js_coalesce a c = first_present [a] c"
  by (simp add: js_coalesce_def first_present_def)

lemma push_section:
  "(if truthy v \<and> typeof_object v then S @ [plus_str T (stringify v)] else S)
     = S @ section_of T v"
  by (simp add: section_of_def is_object_def)

lemma push_calendar_js:
  "(if truthy v \<and> isArray v then S @ [plus_str T (stringify v)] else S @ section_of T v)
     = S @ section_of T v"
  by (cases v) (simp_all add: section_of_def is_object_def)

lemma push_calendar_ts:
  "(if isArray v then S @ [plus_str T (stringify v)] else S @ section_of T v)
     = S @ section_of T v"
  by (cases v) (simp_all add: section_of_def is_object_def)

lemma formatExecutivePayload_sections:
  "formatExecutivePayload b l c =
     (if sections_of b l c = [] then ''No data provided.''
      else join ''\<newline>\<newline>'' (sections_of b l c))"
  unfolding formatExecutivePayload_def Let_def push_section push_calendar_js
  by (simp add: sections_of_def)

lemma format_ts_sections:
  assumes "is_object ud"
  shows "formatUserDataPayload_ts ud =
     (let secs = sections_of (js_get ud ''biometrics'')
                   (first_present [js_get ud ''clinical_markers'', js_get ud ''clinical_audit'']
                      (js_get ud ''labs''))
                   (first_present [js_get ud ''calendar_events''] (js_get ud ''calendar''))
      in if secs = [] then stringify ud else Some (join ''\<newline>\<newline>'' secs))"
proof -
  have ud: "truthy ud" "typeof_object ud"
    using assms by (simp_all add: is_object_def)
  show ?thesis
    unfolding formatUserDataPayload_ts_def Let_def push_section push_calendar_ts
      js_coalesce_first
    unfolding js_coalesce_first1
    using ud by (simp add: sections_of_def)
qed

lemma format_js_sections:
  assumes "is_object ud"
  shows "formatUserDataPayload_js ud =
     (let b = js_get ud ''biometrics'';
          l = first_truthy [js_get ud ''clinical_markers'', js_get ud ''clinical_audit'']
                (js_get ud ''labs'');
          c = first_truthy [js_get ud ''calendar_events''] (js_get ud ''calendar'')
      in if \<not> (truthy b \<or> truthy l \<or> truthy c) then stringify ud
         else if sections_of b l c = [] then Some ''No data provided.''
         else Some (join ''\<newline>\<newline>'' (sections_of b l c)))"
proof -
  have ud: "truthy ud" "typeof_object ud"
    using assms by (simp_all add: is_object_def)
  show ?thesis
    unfolding formatUserDataPayload_js_def js_or_first
    unfolding js_or_first1 formatExecutivePayload_sections Let_def
    using ud by simp
qed

lemma format_not_object:
  "\<not> is_object ud \<Longrightarrow> formatUserDataPayload_js ud = Some ''No data provided.''
                        \<and> formatUserDataPayload_ts ud = Some ''No data provided.''"
  by (simp add: formatUserDataPayload_js_def formatUserDataPayload_ts_def is_object_def)

lemma format_ts_nonempty: "\<exists>s. formatUserDataPayload_ts ud = Some s \<and> s \<noteq> []"
proof (cases "is_object ud")
  case False
  then show ?thesis by (simp add: format_not_object)
next
  case True
  then show ?thesis
    using stringify_object_nonempty [OF True] join_sections_nonempty
    by (auto simp add: format_ts_sections Let_def)
qed

lemma format_js_nonempty: "\<exists>s. formatUserDataPayload_js ud = Some s \<and> s \<noteq> []"
proof (cases "is_object ud")
  case False
  then show ?thesis by (simp add: format_not_object)
next
  case True
  then show ?thesis
    using stringify_object_nonempty [OF True] join_sections_nonempty
    by (auto simp add: format_js_sections Let_def)
qed

lemma indent_0: "indent 0 = []"
  by (simp add: indent_def)

lemma indent_1: "indent (Suc 0) = ''  ''"
  by (simp add: indent_def numeral_2_eq_2)

lemma digit_chars:
  "digit_char 0 = CHR ''0''" "digit_char 1 = CHR ''1''" "digit_char 2 = CHR ''2''"
  "digit_char 3 = CHR ''3''" "digit_char 4 = CHR ''4''" "digit_char 5 = CHR ''5''"
  "digit_char 6 = CHR ''6''" "digit_char 7 = CHR ''7''" "digit_char 8 = CHR ''8''"
  "digit_char 9 = CHR ''9''"
  by code_simp+

lemma or_coalesce_agree: "absent_or_object a \<Longrightarrow> js_or a b = js_coalesce a b"
  by (cases a) (simp_all add: absent_or_object_def is_object_def js_or_def js_coalesce_def)

lemma absent_or_object_truthy: "absent_or_object a \<Longrightarrow> truthy a = is_object a"
  by (cases a) (simp_all add: absent_or_object_def is_object_def)

lemma absent_or_object_coalesce:
  "absent_or_object a \<Longrightarrow> absent_or_object b \<Longrightarrow> absent_or_object (js_coalesce a b)"
  by (simp add: js_coalesce_def)

lemma sections_empty_iff:
  "sections_of b l c = [] \<longleftrightarrow> \<not> is_object b \<and> \<not> is_object l \<and> \<not> is_object c"
  by (simp add: sections_of_def section_of_def)

lemma formatters_agree:
  assumes obj: "is_object ud"
    and fields: "\<forall>k\<in>set payload_keys. absent_or_object (js_get ud k)"
  shows "formatUserDataPayload_js ud = formatUserDataPayload_ts ud"
proof -
  let ?b = "js_get ud ''biometrics''"
  let ?cm = "js_get ud ''clinical_markers''"
  let ?ca = "js_get ud ''clinical_audit''"
  let ?l = "js_get ud ''labs''"
  let ?ce = "js_get ud ''calendar_events''"
  let ?c = "js_get ud ''calendar''"
  have f: "absent_or_object ?b" "absent_or_object ?cm" "absent_or_object ?ca"
    "absent_or_object ?l" "absent_or_object ?ce" "absent_or_object ?c"
    using fields by (simp_all add: payload_keys_def)
  have labs: "first_truthy [?cm, ?ca] ?l = first_present [?cm, ?ca] ?l"
    using f or_coalesce_agree [of ?cm ?ca] or_coalesce_agree [of "js_coalesce ?cm ?ca" ?l]
      absent_or_object_coalesce [of ?cm ?ca]
    by (simp add: js_or_first [symmetric] js_coalesce_first [symmetric])
  have cal: "first_truthy [?ce] ?c = first_present [?ce] ?c"
    using f or_coalesce_agree [of ?ce ?c]
    by (simp add: js_or_first1 [symmetric] js_coalesce_first1 [symmetric])
  have aL: "absent_or_object (first_present [?cm, ?ca] ?l)"
    using f absent_or_object_coalesce [of ?cm ?ca]
      absent_or_object_coalesce [of "js_coalesce ?cm ?ca" ?l]
    by (simp add: js_coalesce_first [symmetric])
  have aC: "absent_or_object (first_present [?ce] ?c)"
    using f absent_or_object_coalesce [of ?ce ?c]
    by (simp add: js_coalesce_first1 [symmetric])
  show ?thesis
    using obj f(1) aL aC
    by (simp add: format_js_sections format_ts_sections labs cal Let_def sections_empty_iff
        absent_or_object_truthy)
qed

section \<open>Lemmas on the JSON Parser\<close>














lemma selected_fenced_reply: "selected_text fenced_reply = fenced_content"
  by (simp add: selected_text_def fenced_reply_def fenced_content_def dq_def trim_def
      code_match_def is_space_def)


section \<open>Lemmas on the poll loop\<close>

lemma loop_step:
  "continues svc t r mw s0 i \<Longrightarrow>
     waitForRun_loop svc t r mw p s0 i tr
       = waitForRun_loop svc t r mw p s0 (Suc i) (tr @ [RunsRetrieve t r, SetTimeout p])"
  by (subst waitForRun_loop.simps) (auto simp add: continues_def terminal_def)

lemma loop_stop:
  "\<not> continues svc t r mw s0 n \<Longrightarrow>
     waitForRun_loop svc t r mw p s0 n tr = Some (decision svc t r mw s0 n tr)"
  by (subst waitForRun_loop.simps)
     (auto simp add: continues_def terminal_def decision_def RunTimeout_def
        RunTerminatedAbnormally_def split: sum.splits)

lemma loop_skip:
  "(\<forall>j. i \<le> j \<and> j < i + k \<longrightarrow> continues svc t r mw s0 j) \<Longrightarrow>
     waitForRun_loop svc t r mw p s0 i tr
       = waitForRun_loop svc t r mw p s0 (i + k) (tr @ poll_events t r p k)"
proof (induction k arbitrary: i tr)
  case 0
  then show ?case by (simp add: poll_events_def)
next
  case (Suc k)
  from Suc.prems have c: "continues svc t r mw s0 i" by simp
  from Suc.prems have "\<forall>j. Suc i \<le> j \<and> j < Suc i + k \<longrightarrow> continues svc t r mw s0 j" by simp
  from Suc.IH [OF this, of "tr @ [RunsRetrieve t r, SetTimeout p]"] loop_step [OF c, of p tr]
  show ?case by (simp add: poll_events_def)
qed

lemma loop_returns_stops:
  assumes ret: "waitForRun_loop svc t r mw p s0 i tr = Some y"
  shows "\<exists>n\<ge>i. (\<forall>j. i \<le> j \<and> j < n \<longrightarrow> continues svc t r mw s0 j)
           \<and> \<not> continues svc t r mw s0 n"
proof (rule waitForRun_loop.raw_induct
    [where P = "\<lambda>svc t r mw p s0 i tr y.
       \<exists>n\<ge>i. (\<forall>j. i \<le> j \<and> j < n \<longrightarrow> continues svc t r mw s0 j)
           \<and> \<not> continues svc t r mw s0 n", OF _ ret], goal_cases)
  case (1 loop svc t r mw p s0 i tr y)
  show ?case
  proof (cases "continues svc t r mw s0 i")
    case False
    then have "i \<le> i \<and> (\<forall>j. i \<le> j \<and> j < i \<longrightarrow> continues svc t r mw s0 j)
                \<and> \<not> continues svc t r mw s0 i"
      by auto
    then show ?thesis by (rule exI [of _ i])
  next
    case True
    then obtain status where st: "date_now svc (Suc i) - s0 < mw"
      "runs_retrieve svc t r i = Inr status" "status \<noteq> ''completed''"
      "status \<noteq> ''failed''" "status \<noteq> ''cancelled''" "status \<noteq> ''expired''"
      unfolding continues_def terminal_def by blast
    from 1(2) have "loop svc t r mw p s0 (Suc i) (tr @ [RunsRetrieve t r, SetTimeout p]) = Some y"
      by (simp only: st if_True if_False sum.case simp_thms)
    from 1(1) [OF this] obtain n where n: "Suc i \<le> n"
      "\<forall>j. Suc i \<le> j \<and> j < n \<longrightarrow> continues svc t r mw s0 j" "\<not> continues svc t r mw s0 n"
      by blast
    have "continues svc t r mw s0 j" if "i \<le> j" "j < n" for j
    proof (cases "j = i")
      case True
      with \<open>continues svc t r mw s0 i\<close> show ?thesis by simp
    next
      case False
      with that have "Suc i \<le> j \<and> j < n" by simp
      with n(2) show ?thesis by blast
    qed
    moreover from n(1) have "i \<le> n" by simp
    ultimately have "i \<le> n \<and> (\<forall>j. i \<le> j \<and> j < n \<longrightarrow> continues svc t r mw s0 j)
                \<and> \<not> continues svc t r mw s0 n"
      using n(3) by simp
    then show ?thesis by (rule exI [of _ n])
  qed
qed

lemma loop_characterisation:
  "waitForRun_loop svc t r mw p s0 0 tr = Some y \<longleftrightarrow>
     (\<exists>n. (\<forall>j<n. continues svc t r mw s0 j) \<and> \<not> continues svc t r mw s0 n
          \<and> y = decision svc t r mw s0 n (tr @ poll_events t r p n))"
proof
  assume y: "waitForRun_loop svc t r mw p s0 0 tr = Some y"
  from loop_returns_stops [OF y] obtain n where
    n: "\<forall>j<n. continues svc t r mw s0 j" "\<not> continues svc t r mw s0 n"
    by auto
  from n(1) have "waitForRun_loop svc t r mw p s0 0 tr
       = waitForRun_loop svc t r mw p s0 (0 + n) (tr @ poll_events t r p n)"
    by (intro loop_skip) simp
  with loop_stop [OF n(2), of p "tr @ poll_events t r p n"] y
  have "y = decision svc t r mw s0 n (tr @ poll_events t r p n)" by simp
  with n show "\<exists>n. (\<forall>j<n. continues svc t r mw s0 j) \<and> \<not> continues svc t r mw s0 n
          \<and> y = decision svc t r mw s0 n (tr @ poll_events t r p n)" by blast
next
  assume "\<exists>n. (\<forall>j<n. continues svc t r mw s0 j) \<and> \<not> continues svc t r mw s0 n
          \<and> y = decision svc t r mw s0 n (tr @ poll_events t r p n)"
  then obtain n where n: "\<forall>j<n. continues svc t r mw s0 j" "\<not> continues svc t r mw s0 n"
    "y = decision svc t r mw s0 n (tr @ poll_events t r p n)" by blast
  from n(1) have "waitForRun_loop svc t r mw p s0 0 tr
       = waitForRun_loop svc t r mw p s0 (0 + n) (tr @ poll_events t r p n)"
    by (intro loop_skip) simp
  with loop_stop [OF n(2), of p "tr @ poll_events t r p n"] n(3)
  show "waitForRun_loop svc t r mw p s0 0 tr = Some y" by simp
qed


lemma loop_returns:
  assumes "\<not> continues svc t r mw s0 m"
  shows "\<exists>y. waitForRun_loop svc t r mw p s0 0 tr = Some y"
proof -
  define n where "n = (LEAST k. \<not> continues svc t r mw s0 k)"
  have stop: "\<not> continues svc t r mw s0 n"
    unfolding n_def using assms by (rule LeastI)
  have "continues svc t r mw s0 j" if "j < n" for j
    using that not_less_Least [of j "\<lambda>k. \<not> continues svc t r mw s0 k"]
    by (simp add: n_def)
  with stop loop_characterisation [of svc t r mw p s0 tr
      "decision svc t r mw s0 n (tr @ poll_events t r p n)"]
  show ?thesis by blast
qed

lemma waitForRun_js_loop:
  "waitForRun_js svc t r om op tr =
     waitForRun_loop svc t r (default_maxWaitMs om) (default_pollIntervalMs op)
       (date_now svc 0) 0 tr"
  by (simp add: waitForRun_js_def default_maxWaitMs_def default_pollIntervalMs_def)

lemma waitForRun_ts_js:
  "waitForRun_ts svc t r om op tr =
     (case waitForRun_js svc t r om op tr of
        None \<Rightarrow> None
      | Some (Inl err, tr') \<Rightarrow> Some (Inl err, tr')
      | Some (Inr run, tr') \<Rightarrow> Some (Inr (), tr'))"
  by (simp add: waitForRun_js_def waitForRun_ts_def)

lemma continues_reads:
  assumes "\<forall>i. runs_retrieve svc t r i = Inr (st i)"
  shows "continues svc t r mw (date_now svc 0) j \<longleftrightarrow> within svc mw j \<and> \<not> terminal (st j)"
  using assms by (simp add: continues_def within_def)

lemma decision_reads:
  assumes "\<forall>i. runs_retrieve svc t r i = Inr (st i)"
  shows "decision svc t r mw (date_now svc 0) n tr' =
     (if \<not> within svc mw n then (Inl RunTimeout, tr')
      else if st n = ''completed'' then (Inr ''completed'', tr' @ [RunsRetrieve t r])
      else (Inl (RunTerminatedAbnormally (st n)), tr' @ [RunsRetrieve t r]))"
  using assms by (simp add: decision_def within_def)

lemma waitForRun_js_reads:
  assumes reads: "\<forall>i. runs_retrieve svc t r i = Inr (st i)"
  shows "waitForRun_js svc t r om op tr = Some y \<longleftrightarrow>
     (\<exists>n. (\<forall>j<n. within svc (default_maxWaitMs om) j \<and> \<not> terminal (st j))
        \<and> (\<not> within svc (default_maxWaitMs om) n
              \<and> y = (Inl RunTimeout, tr @ poll_events t r (default_pollIntervalMs op) n)
           \<or> within svc (default_maxWaitMs om) n \<and> st n = ''completed''
              \<and> y = (Inr ''completed'',
                     tr @ poll_events t r (default_pollIntervalMs op) n @ [RunsRetrieve t r])
           \<or> within svc (default_maxWaitMs om) n \<and> abnormal (st n)
              \<and> y = (Inl (RunTerminatedAbnormally (st n)),
                     tr @ poll_events t r (default_pollIntervalMs op) n @ [RunsRetrieve t r])))"
  unfolding waitForRun_js_loop loop_characterisation continues_reads [OF reads]
    decision_reads [OF reads]
  by (rule iff_exI) (auto simp add: terminal_def abnormal_def)


lemma err_distinct:
  "RunTimeout \<noteq> RunTerminatedAbnormally s"
  "RunTerminatedAbnormally s = RunTerminatedAbnormally s' \<longleftrightarrow> s = s'"
  by (simp_all add: RunTimeout_def RunTerminatedAbnormally_def)

lemma js_completed_iff:
  assumes reads: "\<forall>i. runs_retrieve svc t r i = Inr (st i)"
  shows "(\<exists>tr'. waitForRun_js svc t r om op tr = Some (Inr run, tr')) \<longleftrightarrow>
     run = ''completed'' \<and>
     (\<exists>n. (\<forall>j<n. within svc (default_maxWaitMs om) j \<and> \<not> terminal (st j))
          \<and> within svc (default_maxWaitMs om) n \<and> st n = ''completed'')"
  unfolding waitForRun_js_reads [OF reads] by auto

lemma js_abnormal_iff:
  assumes reads: "\<forall>i. runs_retrieve svc t r i = Inr (st i)" and ab: "abnormal s"
  shows "(\<exists>tr'. waitForRun_js svc t r om op tr = Some (Inl (RunTerminatedAbnormally s), tr')) \<longleftrightarrow>
     (\<exists>n. (\<forall>j<n. within svc (default_maxWaitMs om) j \<and> \<not> terminal (st j))
          \<and> within svc (default_maxWaitMs om) n \<and> st n = s)"
  unfolding waitForRun_js_reads [OF reads] using ab
  by (auto simp add: err_distinct err_distinct(1) [symmetric])

lemma js_timeout_iff:
  assumes reads: "\<forall>i. runs_retrieve svc t r i = Inr (st i)"
  shows "(\<exists>tr'. waitForRun_js svc t r om op tr = Some (Inl RunTimeout, tr')) \<longleftrightarrow>
     (\<exists>n. (\<forall>j<n. within svc (default_maxWaitMs om) j \<and> \<not> terminal (st j))
          \<and> \<not> within svc (default_maxWaitMs om) n)"
  unfolding waitForRun_js_reads [OF reads]
  by (auto simp add: err_distinct)

lemma ts_of_js:
  "(\<exists>tr'. waitForRun_ts svc t r om op tr = Some (Inl e, tr'))
     \<longleftrightarrow> (\<exists>tr'. waitForRun_js svc t r om op tr = Some (Inl e, tr'))"
  "(\<exists>tr'. waitForRun_ts svc t r om op tr = Some (Inr (), tr'))
     \<longleftrightarrow> (\<exists>run tr'. waitForRun_js svc t r om op tr = Some (Inr run, tr'))"
  "(\<exists>y. waitForRun_ts svc t r om op tr = Some y)
     \<longleftrightarrow> (\<exists>y. waitForRun_js svc t r om op tr = Some y)"
  unfolding waitForRun_ts_js
  by (auto split: option.splits sum.splits prod.splits)

lemma clock_lower_bound:
  assumes "clock_advances svc p"
  shows "date_now svc 0 + p * int n \<le> date_now svc (Suc n)"
proof (induction n)
  case 0
  from assms show ?case by (simp add: clock_advances_def)
next
  case (Suc n)
  from assms have "date_now svc (Suc n) + p \<le> date_now svc (Suc (Suc n))"
    by (simp add: clock_advances_def)
  with Suc show ?case by (simp add: algebra_simps)
qed

lemma default_window_closes:
  "clock_advances svc 1500 \<Longrightarrow> \<not> within svc 120000 80"
  using clock_lower_bound [of svc 1500 80] by (simp add: within_def)

lemma not_within_returns:
  assumes "\<not> within svc (default_maxWaitMs om) m"
  shows "\<exists>y. waitForRun_js svc t r om op tr = Some y"
  unfolding waitForRun_js_loop
  by (rule loop_returns [of _ _ _ _ _ m]) (use assms in \<open>simp add: continues_def within_def\<close>)

section \<open>Lemmas on \<open>runProtocolAnalysis\<close>\<close>

lemma demo_reads:
  "\<forall>i. runs_retrieve (demo_service st msgs) t r i = Inr (st i)"
  by (simp add: demo_service_def)

lemma demo_within: "within (demo_service st msgs) m j \<longleftrightarrow> 1500 * (1 + int j) < m"
  by (simp add: within_def demo_service_def)

lemma demo_wait_js:
  "waitForRun_js (demo_service demo_statuses msgs) t r None None tr
     = Some (Inr ''completed'',
             tr @ [RunsRetrieve t r, SetTimeout 1500, RunsRetrieve t r, SetTimeout 1500,
                   RunsRetrieve t r])"
proof -
  have "(\<forall>j<2. within (demo_service demo_statuses msgs) (default_maxWaitMs None) j
            \<and> \<not> terminal (demo_statuses j))
        \<and> within (demo_service demo_statuses msgs) (default_maxWaitMs None) 2
        \<and> demo_statuses 2 = ''completed''"
    by (simp add: demo_within default_maxWaitMs_def demo_statuses_def terminal_def)
  then have "waitForRun_js (demo_service demo_statuses msgs) t r None None tr
     = Some (Inr ''completed'',
             tr @ poll_events t r (default_pollIntervalMs None) 2 @ [RunsRetrieve t r])"
    unfolding waitForRun_js_reads [OF demo_reads] by blast
  then show ?thesis
    by (simp add: poll_events_def default_pollIntervalMs_def numeral_2_eq_2)
qed

lemma demo_wait_ts:
  "waitForRun_ts (demo_service demo_statuses msgs) t r None None tr
     = Some (Inr (),
             tr @ [RunsRetrieve t r, SetTimeout 1500, RunsRetrieve t r, SetTimeout 1500,
                   RunsRetrieve t r])"
  by (simp add: waitForRun_ts_js demo_wait_js)

lemma demo_latest: "latest_text_js demo_messages = Inr fenced_reply"
  "latest_text_ts demo_messages = Inr fenced_reply"
  by (simp_all add: latest_text_js_def latest_text_ts_def demo_messages_def)

lemma demo_parse:
  "parseAssistantJson parse_table fenced_reply = Inr (JObj [(''directive'', JStr ''Rest today'')])"
  using selected_fenced_reply
  by (simp add: parseAssistantJson_def selected_text_def parse_table_def Let_def)

lemma demo_run_ts:
  "runProtocolAnalysis_ts parse_table (Some ''sk-test'')
     (demo_service demo_statuses (Inr demo_messages)) JNull
   = Some (Inr (JObj
             [(''protocolCached'', JBool False),
              (''status'', JStr ''completed''),
              (''data'', JObj [(''directive'', JStr ''Rest today'')]),
              (''rawText'', JStr fenced_reply),
              (''directive'', JStr ''Rest today''),
              (''insight'', JStr []),
              (''statusText'', JStr ''Optimal Baseline''),
              (''protocolLogMessage'', JStr ''Rest today'')]),
           [ThreadsCreate, MessagesCreate ''thread_1'' (Some ''No data provided.''),
            RunsCreate ''thread_1'' assistantId,
            RunsRetrieve ''thread_1'' ''run_1'', SetTimeout 1500,
            RunsRetrieve ''thread_1'' ''run_1'', SetTimeout 1500,
            RunsRetrieve ''thread_1'' ''run_1'',
            MessagesList ''thread_1'' ''desc'' 10])"
proof -
  let ?svc = "demo_service demo_statuses (Inr demo_messages)"
  have svc: "threads_create ?svc = Inr ''thread_1''"
    "messages_create ?svc = (\<lambda>threadId content. Inr ())"
    "runs_create ?svc = (\<lambda>threadId assistant. Inr ''run_1'')"
    "messages_list ?svc = (\<lambda>threadId. Inr demo_messages)"
    by (simp_all add: demo_service_def)
  have n: "normalizeForDashboard_ts (JObj [(''directive'', JStr ''Rest today'')])
     = Inr (JObj [(''directive'', JStr ''Rest today''), (''insight'', JStr []),
                  (''statusText'', JStr ''Optimal Baseline''),
                  (''protocolLogMessage'', JStr ''Rest today'')])"
    by (simp add: normalizeForDashboard_ts_def js_coalesce_def)
  show ?thesis
    by (simp add: runProtocolAnalysis_ts_def analysis_ts_def svc demo_wait_ts
        getLatestAssistantMessage_ts_def demo_latest demo_parse n
        formatUserDataPayload_ts_def)
qed

lemma demo_run_js:
  "runProtocolAnalysis_js parse_table (Some ''sk-test'')
     (demo_service demo_statuses (Inr demo_messages)) JNull
   = Some (Inr (JObj
             [(''protocolCached'', JBool False),
              (''status'', JStr ''completed''),
              (''data'', JObj [(''directive'', JStr ''Rest today'')]),
              (''rawText'', JStr fenced_reply),
              (''directive'', JStr ''Rest today''),
              (''insight'', JStr []),
              (''statusText'', JStr ''Optimal Baseline''),
              (''protocolLogMessage'', JStr ''Rest today'')]),
           [ThreadsCreate, MessagesCreate ''thread_1'' (Some ''No data provided.''),
            RunsCreate ''thread_1'' assistantId,
            RunsRetrieve ''thread_1'' ''run_1'', SetTimeout 1500,
            RunsRetrieve ''thread_1'' ''run_1'', SetTimeout 1500,
            RunsRetrieve ''thread_1'' ''run_1'',
            MessagesList ''thread_1'' ''desc'' 10])"
proof -
  let ?svc = "demo_service demo_statuses (Inr demo_messages)"
  have svc: "threads_create ?svc = Inr ''thread_1''"
    "messages_create ?svc = (\<lambda>threadId content. Inr ())"
    "runs_create ?svc = (\<lambda>threadId assistant. Inr ''run_1'')"
    "messages_list ?svc = (\<lambda>threadId. Inr demo_messages)"
    by (simp_all add: demo_service_def)
  have n: "normalizeForDashboard_js (JObj [(''directive'', JStr ''Rest today'')])
     = JObj [(''directive'', JStr ''Rest today''), (''insight'', JStr []),
                  (''statusText'', JStr ''Optimal Baseline''),
                  (''protocolLogMessage'', JStr ''Rest today'')]"
    by (simp add: normalizeForDashboard_js_def js_coalesce_def)
  show ?thesis
    by (simp add: runProtocolAnalysis_js_def analysis_js_def getClient_def svc demo_wait_js
        getLatestAssistantMessage_js_def demo_latest demo_parse n
        formatUserDataPayload_js_def)
qed

lemma coalesce_default_not_nullish: "\<not> nullish (js_coalesce a (JStr s))"
  by (simp add: js_coalesce_def)

lemma normalize_js_not_nullish:
  "k \<in> set normalized_keys \<Longrightarrow> \<not> nullish (js_get (normalizeForDashboard_js p) k)"
  by (auto simp add: normalizeForDashboard_js_def normalized_keys_def
      coalesce_default_not_nullish)

lemma normalize_ts_not_nullish:
  "normalizeForDashboard_ts p = Inr fd \<Longrightarrow> k \<in> set normalized_keys \<Longrightarrow>
     \<not> nullish (js_get fd k)"
  by (auto simp add: normalizeForDashboard_ts_def normalized_keys_def
      coalesce_default_not_nullish split: if_splits)

lemma analysis_ts_inr:
  "analysis_ts jp svc ud = Some (Inr r, tr) \<Longrightarrow>
     \<exists>parsed txt fd. normalizeForDashboard_ts parsed = Inr fd \<and> r = completed_object parsed txt fd"
  by (auto simp add: analysis_ts_def Let_def completed_object_def
      split: sum.splits option.splits prod.splits)

lemma analysis_js_inr:
  "analysis_js jp key svc ud = Some (Inr r, tr) \<Longrightarrow>
     \<exists>parsed txt. r = completed_object parsed txt (normalizeForDashboard_js parsed)"
  by (auto simp add: analysis_js_def Let_def completed_object_def
      split: sum.splits option.splits prod.splits)

lemma completed_object_shape:
  assumes "\<forall>k\<in>set normalized_keys. \<not> nullish (js_get fd k)"
  shows "is_completed (completed_object parsed txt fd)
     \<and> keys (completed_object parsed txt fd) = completed_keys
     \<and> (\<forall>k\<in>set normalized_keys. \<not> nullish (js_get (completed_object parsed txt fd) k))"
  using assms
  by (simp add: completed_object_def is_completed_def completed_keys_def normalized_keys_def)

lemma analysis_js_returns:
  assumes "\<not> within svc 120000 m"
  shows "\<exists>y. analysis_js jp key svc ud = Some y"
proof -
  have w: "\<exists>y. waitForRun_js svc thread run None None tr0 = Some y" for thread run tr0
    using assms not_within_returns [of svc None m thread run None tr0]
    by (simp add: default_maxWaitMs_def)
  show ?thesis
  proof (cases "getClient key")
    case (Inl e)
    then show ?thesis by (simp add: analysis_js_def)
  next
    case c: (Inr u)
    show ?thesis
    proof (cases "threads_create svc")
      case (Inl e)
      with c show ?thesis by (simp add: analysis_js_def)
    next
      case t: (Inr thread)
      show ?thesis
      proof (cases "messages_create svc thread (formatUserDataPayload_js ud)")
        case (Inl e)
        with c t show ?thesis by (simp add: analysis_js_def)
      next
        case mc: (Inr u')
        show ?thesis
        proof (cases "runs_create svc thread assistantId")
          case (Inl e)
          with c t mc show ?thesis by (simp add: analysis_js_def)
        next
          case rc: (Inr run)
          from w [of thread run "[ThreadsCreate,
              MessagesCreate thread (formatUserDataPayload_js ud),
              RunsCreate thread assistantId]"]
          obtain res tr where wr: "waitForRun_js svc thread run None None
              [ThreadsCreate, MessagesCreate thread (formatUserDataPayload_js ud),
               RunsCreate thread assistantId] = Some (res, tr)"
            by auto
          with c t mc rc show ?thesis
            by (simp add: analysis_js_def Let_def split: sum.splits prod.splits)
        qed
      qed
    qed
  qed
qed

lemma analysis_ts_returns:
  assumes "\<not> within svc 120000 m"
  shows "\<exists>y. analysis_ts jp svc ud = Some y"
proof -
  have w: "\<exists>y. waitForRun_ts svc thread run None None tr0 = Some y" for thread run tr0
  proof -
    have "\<exists>y. waitForRun_js svc thread run None None tr0 = Some y"
      using assms not_within_returns [of svc None m thread run None tr0]
      by (simp add: default_maxWaitMs_def)
    then show ?thesis by (simp only: ts_of_js(3))
  qed
  show ?thesis
  proof (cases "threads_create svc")
    case (Inl e)
    then show ?thesis by (simp add: analysis_ts_def)
  next
    case t: (Inr thread)
    show ?thesis
    proof (cases "messages_create svc thread (formatUserDataPayload_ts ud)")
      case (Inl e)
      with t show ?thesis by (simp add: analysis_ts_def)
    next
      case mc: (Inr u')
      show ?thesis
      proof (cases "runs_create svc thread assistantId")
        case (Inl e)
        with t mc show ?thesis by (simp add: analysis_ts_def)
      next
        case rc: (Inr run)
        from w [of thread run "[ThreadsCreate,
            MessagesCreate thread (formatUserDataPayload_ts ud),
            RunsCreate thread assistantId]"]
        obtain res tr where wr: "waitForRun_ts svc thread run None None
            [ThreadsCreate, MessagesCreate thread (formatUserDataPayload_ts ud),
             RunsCreate thread assistantId] = Some (res, tr)"
          by auto
        with t mc rc show ?thesis
          by (simp add: analysis_ts_def Let_def split: sum.splits prod.splits)
      qed
    qed
  qed
qed

lemma run_js_of_analysis:
  "runProtocolAnalysis_js jp key svc ud =
     (case analysis_js jp key svc ud of
        None \<Rightarrow> None
      | Some (Inr result, tr) \<Rightarrow> Some (Inr result, tr)
      | Some (Inl err, tr) \<Rightarrow>
          Some (Inr (JObj (PROTOCOL_CACHED_FALLBACK @ [(''error'', JStr (error_text_js err))])),
                tr @ [ConsoleError ''Chronos Brain runProtocolAnalysis error:''
                        (error_text_js err)]))"
  by (simp add: runProtocolAnalysis_js_def error_text_js_def
      split: option.splits prod.splits sum.splits)

lemma run_ts_of_analysis:
  "runProtocolAnalysis_ts jp key svc ud =
     (if no_credential key
      then Some (Inr (cached_object_ts ''Using last known protocol. OPENAI_API_KEY not set.''
                        ''OPENAI_API_KEY not set''), [])
      else (case analysis_ts jp svc ud of
              None \<Rightarrow> None
            | Some (Inr result, tr) \<Rightarrow> Some (Inr result, tr)
            | Some (Inl err, tr) \<Rightarrow>
                Some (Inr (cached_object_ts
                             ''Using last known protocol. AI temporarily unavailable.''
                             (exn_message err)),
                      tr @ [ConsoleError ''Protocol analysis error:'' (exn_message err)])))"
  by (simp add: runProtocolAnalysis_ts_def no_credential_def cached_object_ts_def Let_def
      split: option.splits prod.splits sum.splits)

lemma cached_object_ts_shape:
  "is_cached (cached_object_ts d m) \<and> \<not> is_completed (cached_object_ts d m)
   \<and> keys (cached_object_ts d m) = cached_keys_ts
   \<and> (\<forall>k\<in>set normalized_keys. typeof_string (js_get (cached_object_ts d m) k))
   \<and> js_get (cached_object_ts d m) ''insight'' = JStr []
   \<and> js_get (cached_object_ts d m) ''protocolLogMessage'' = JStr []
   \<and> js_get (cached_object_ts d m) ''error'' = JStr m"
  by (simp add: cached_object_ts_def is_cached_def is_completed_def cached_keys_ts_def
      normalized_keys_def)

lemma cached_object_js_shape:
  "is_cached (JObj (PROTOCOL_CACHED_FALLBACK @ [(''error'', JStr m)]))
   \<and> \<not> is_completed (JObj (PROTOCOL_CACHED_FALLBACK @ [(''error'', JStr m)]))
   \<and> set cached_keys_common \<subseteq> set (keys (JObj (PROTOCOL_CACHED_FALLBACK @ [(''error'', JStr m)])))
   \<and> js_get (JObj (PROTOCOL_CACHED_FALLBACK @ [(''error'', JStr m)])) ''insight'' = JStr []
   \<and> js_get (JObj (PROTOCOL_CACHED_FALLBACK @ [(''error'', JStr m)])) ''error'' = JStr m"
  by (simp add: PROTOCOL_CACHED_FALLBACK_def is_cached_def is_completed_def
      cached_keys_common_def)

lemma completed_not_cached: "is_completed r \<Longrightarrow> \<not> is_cached r"
  by (simp add: is_completed_def is_cached_def)

lemma analysis_js_completed:
  assumes "analysis_js jp key svc ud = Some (Inr r, tr)"
  shows "is_completed r \<and> keys r = completed_keys
         \<and> (\<forall>k\<in>set normalized_keys. \<not> nullish (js_get r k))"
proof -
  from analysis_js_inr [OF assms] obtain parsed raw
    where r: "r = completed_object parsed raw (normalizeForDashboard_js parsed)" by blast
  have "\<forall>k\<in>set normalized_keys. \<not> nullish (js_get (normalizeForDashboard_js parsed) k)"
    using normalize_js_not_nullish by blast
  from completed_object_shape [OF this] r show ?thesis by simp
qed

lemma analysis_ts_completed:
  assumes "analysis_ts jp svc ud = Some (Inr r, tr)"
  shows "is_completed r \<and> keys r = completed_keys
         \<and> (\<forall>k\<in>set normalized_keys. \<not> nullish (js_get r k))"
proof -
  from analysis_ts_inr [OF assms] obtain parsed raw fd
    where fd: "normalizeForDashboard_ts parsed = Inr fd"
      and r: "r = completed_object parsed raw fd" by blast
  have "\<forall>k\<in>set normalized_keys. \<not> nullish (js_get fd k)"
    using normalize_ts_not_nullish [OF fd] by blast
  from completed_object_shape [OF this] r show ?thesis by simp
qed

lemma run_js_never_throws:
  "runProtocolAnalysis_js jp key svc ud = Some (out, tr) \<Longrightarrow> \<exists>r. out = Inr r"
  by (auto simp add: run_js_of_analysis split: option.splits sum.splits prod.splits)

lemma run_ts_never_throws:
  "runProtocolAnalysis_ts jp key svc ud = Some (out, tr) \<Longrightarrow> \<exists>r. out = Inr r"
  by (auto simp add: run_ts_of_analysis split: option.splits sum.splits prod.splits if_splits)

lemma run_js_caught:
  assumes "analysis_js jp key svc ud = Some (Inl err, tr)"
  shows "\<exists>r. runProtocolAnalysis_js jp key svc ud
              = Some (Inr r, tr @ [ConsoleError ''Chronos Brain runProtocolAnalysis error:''
                                     (error_text_js err)])
           \<and> is_cached r \<and> js_get r ''error'' = JStr (error_text_js err)"
  using assms cached_object_js_shape [of "error_text_js err"]
  by (simp add: run_js_of_analysis)

lemma run_ts_caught:
  assumes "\<not> no_credential key" and "analysis_ts jp svc ud = Some (Inl err, tr)"
  shows "\<exists>r. runProtocolAnalysis_ts jp key svc ud
              = Some (Inr r, tr @ [ConsoleError ''Protocol analysis error:'' (exn_message err)])
           \<and> is_cached r \<and> js_get r ''error'' = JStr (exn_message err)"
  using assms
    cached_object_ts_shape [of "''Using last known protocol. AI temporarily unavailable.''"
      "exn_message err"]
  by (simp add: run_ts_of_analysis)

lemma run_js_passes:
  assumes "analysis_js jp key svc ud = Some (Inr r, tr)"
  shows "runProtocolAnalysis_js jp key svc ud = Some (Inr r, tr) \<and> is_completed r"
  using assms analysis_js_completed [OF assms] by (simp add: run_js_of_analysis)

lemma run_ts_passes:
  assumes "\<not> no_credential key" and "analysis_ts jp svc ud = Some (Inr r, tr)"
  shows "runProtocolAnalysis_ts jp key svc ud = Some (Inr r, tr) \<and> is_completed r"
  using assms analysis_ts_completed [OF assms(2)] by (simp add: run_ts_of_analysis)

lemma run_js_returns:
  assumes "\<not> within svc 120000 m"
  shows "\<exists>r tr. runProtocolAnalysis_js jp key svc ud = Some (Inr r, tr)
           \<and> (is_completed r \<or> is_cached r)"
proof -
  from analysis_js_returns [OF assms, of jp key ud]
  obtain out tr where a: "analysis_js jp key svc ud = Some (out, tr)" by auto
  show ?thesis
  proof (cases out)
    case (Inl err)
    with a run_js_caught [of jp key svc ud err tr] show ?thesis by blast
  next
    case (Inr r)
    with a run_js_passes [of jp key svc ud r tr] show ?thesis by blast
  qed
qed

lemma run_ts_returns:
  assumes "\<not> within svc 120000 m"
  shows "\<exists>r tr. runProtocolAnalysis_ts jp key svc ud = Some (Inr r, tr)
           \<and> (is_completed r \<or> is_cached r)"
proof (cases "no_credential key")
  case True
  then show ?thesis
    using cached_object_ts_shape [of "''Using last known protocol. OPENAI_API_KEY not set.''"
        "''OPENAI_API_KEY not set''"]
    by (simp add: run_ts_of_analysis)
next
  case False
  from analysis_ts_returns [OF assms, of jp ud]
  obtain out tr where a: "analysis_ts jp svc ud = Some (out, tr)" by auto
  show ?thesis
  proof (cases out)
    case (Inl err)
    with a run_ts_caught [OF False, of jp svc ud err tr] show ?thesis by blast
  next
    case (Inr r)
    with a run_ts_passes [OF False, of jp svc ud r tr] show ?thesis by blast
  qed
qed

lemma demo_wait_failed:
  "waitForRun_js (demo_service (\<lambda>i. ''failed'') msgs) t r None None tr
     = Some (Inl (Exn ''Error'' ''Run ended with status: failed''), tr @ [RunsRetrieve t r])"
proof -
  have "(\<forall>j<0. within (demo_service (\<lambda>i. ''failed'') msgs) (default_maxWaitMs None) j
            \<and> \<not> terminal ''failed'')
        \<and> within (demo_service (\<lambda>i. ''failed'') msgs) (default_maxWaitMs None) 0
        \<and> abnormal ''failed''"
    by (simp add: demo_within default_maxWaitMs_def abnormal_def)
  then have "waitForRun_js (demo_service (\<lambda>i. ''failed'') msgs) t r None None tr
     = Some (Inl (RunTerminatedAbnormally ''failed''),
             tr @ poll_events t r (default_pollIntervalMs None) 0 @ [RunsRetrieve t r])"
    unfolding waitForRun_js_reads [OF demo_reads] by blast
  then show ?thesis
    by (simp add: poll_events_def RunTerminatedAbnormally_def)
qed

lemma demo_fields:
  "threads_create (demo_service st msgs) = Inr ''thread_1''"
  "messages_create (demo_service st msgs) = (\<lambda>threadId content. Inr ())"
  "runs_create (demo_service st msgs) = (\<lambda>threadId assistant. Inr ''run_1'')"
  "messages_list (demo_service st msgs) = (\<lambda>threadId. msgs)"
  by (simp_all add: demo_service_def)

lemma demo_analysis_network:
  "analysis_ts parse_table
     ((demo_service demo_statuses (Inr demo_messages))
        \<lparr>threads_create := Inl (Exn ''APIConnectionError'' ''Connection error.'')\<rparr>) JNull
   = Some (Inl (Exn ''APIConnectionError'' ''Connection error.''), [ThreadsCreate])"
  by (simp add: analysis_ts_def)

lemma demo_analysis_failed:
  "analysis_ts parse_table (demo_service (\<lambda>i. ''failed'') (Inr demo_messages)) JNull
   = Some (Inl (Exn ''Error'' ''Run ended with status: failed''),
           [ThreadsCreate, MessagesCreate ''thread_1'' (Some ''No data provided.''),
            RunsCreate ''thread_1'' assistantId, RunsRetrieve ''thread_1'' ''run_1''])"
  by (simp add: analysis_ts_def demo_fields waitForRun_ts_js demo_wait_failed
      formatUserDataPayload_ts_def)

lemma demo_analysis_no_message:
  "analysis_ts parse_table (demo_service demo_statuses (Inr [])) JNull
   = Some (Inl (Exn ''Error'' ''No assistant message in thread''),
           [ThreadsCreate, MessagesCreate ''thread_1'' (Some ''No data provided.''),
            RunsCreate ''thread_1'' assistantId,
            RunsRetrieve ''thread_1'' ''run_1'', SetTimeout 1500,
            RunsRetrieve ''thread_1'' ''run_1'', SetTimeout 1500,
            RunsRetrieve ''thread_1'' ''run_1'',
            MessagesList ''thread_1'' ''desc'' 10])"
  by (simp add: analysis_ts_def demo_fields demo_wait_ts getLatestAssistantMessage_ts_def
      latest_text_ts_def formatUserDataPayload_ts_def)

lemma demo_analysis_malformed:
  "analysis_js parse_table (Some ''sk-test'')
     (demo_service demo_statuses
        (Inr [\<lparr>msg_role = ''assistant'',
               msg_content = Some [\<lparr>part_type = ''text'',
                                    part_text = Some (JStr ''not json'')\<rparr>]\<rparr>])) JNull
   = Some (Inl (Exn ''SyntaxError'' ''Unexpected token''),
           [ThreadsCreate, MessagesCreate ''thread_1'' (Some ''No data provided.''),
            RunsCreate ''thread_1'' assistantId,
            RunsRetrieve ''thread_1'' ''run_1'', SetTimeout 1500,
            RunsRetrieve ''thread_1'' ''run_1'', SetTimeout 1500,
            RunsRetrieve ''thread_1'' ''run_1'',
            MessagesList ''thread_1'' ''desc'' 10])"
proof -
  have p: "parseAssistantJson parse_table ''not json''
             = Inl (Exn ''SyntaxError'' ''Unexpected token'')"
    by (simp add: parseAssistantJson_def trim_def code_match_def is_space_def parse_table_def
        fenced_content_def dq_def)
  show ?thesis
    by (simp add: analysis_js_def getClient_def demo_fields demo_wait_js
        getLatestAssistantMessage_js_def latest_text_js_def formatUserDataPayload_js_def p)
qed

lemma run_ts_shape:
  assumes "runProtocolAnalysis_ts jp key svc ud = Some (out, tr)"
  shows "\<exists>r. out = Inr r \<and>
     (is_completed r \<and> \<not> is_cached r \<and> keys r = completed_keys
        \<and> (\<forall>k\<in>set normalized_keys. \<not> nullish (js_get r k))
      \<or> is_cached r \<and> \<not> is_completed r \<and> keys r = cached_keys_ts
        \<and> (\<forall>k\<in>set normalized_keys. typeof_string (js_get r k))
        \<and> js_get r ''insight'' = JStr [] \<and> js_get r ''protocolLogMessage'' = JStr [])"
proof (cases "no_credential key")
  case True
  with assms cached_object_ts_shape
    [of "''Using last known protocol. OPENAI_API_KEY not set.''" "''OPENAI_API_KEY not set''"]
  show ?thesis by (auto simp add: run_ts_of_analysis)
next
  case False
  with assms obtain a tr0 where a: "analysis_ts jp svc ud = Some (a, tr0)"
    by (auto simp add: run_ts_of_analysis split: option.splits)
  show ?thesis
  proof (cases a)
    case (Inl err)
    with a False assms
    have "out = Inr (cached_object_ts ''Using last known protocol. AI temporarily unavailable.''
                       (exn_message err))"
      by (simp add: run_ts_of_analysis)
    with cached_object_ts_shape
      [of "''Using last known protocol. AI temporarily unavailable.''" "exn_message err"]
    show ?thesis by blast
  next
    case (Inr r)
    with a False assms have "out = Inr r"
      by (simp add: run_ts_of_analysis)
    with analysis_ts_completed [of jp svc ud r tr0] a Inr completed_not_cached [of r]
    show ?thesis by blast
  qed
qed

lemma run_js_shape:
  assumes "runProtocolAnalysis_js jp key svc ud = Some (out, tr)"
  shows "\<exists>r. out = Inr r \<and>
     (is_completed r \<and> \<not> is_cached r \<and> keys r = completed_keys
        \<and> (\<forall>k\<in>set normalized_keys. \<not> nullish (js_get r k))
      \<or> is_cached r \<and> \<not> is_completed r \<and> set cached_keys_common \<subseteq> set (keys r)
        \<and> js_get r ''insight'' = JStr [])"
proof -
  from assms obtain a tr0 where a: "analysis_js jp key svc ud = Some (a, tr0)"
    by (auto simp add: run_js_of_analysis split: option.splits)
  show ?thesis
  proof (cases a)
    case (Inl err)
    with a assms
    have "out = Inr (JObj (PROTOCOL_CACHED_FALLBACK @ [(''error'', JStr (error_text_js err))]))"
      by (simp add: run_js_of_analysis)
    with cached_object_js_shape [of "error_text_js err"]
    show ?thesis by blast
  next
    case (Inr r)
    with a assms have "out = Inr r"
      by (simp add: run_js_of_analysis)
    with analysis_js_completed [of jp key svc ud r tr0] a Inr completed_not_cached [of r]
    show ?thesis by blast
  qed
qed

section \<open>Claims on the Dashboard Normalizer\<close>

text \<open>
  Claim C7, as stated, fails: a field of the result is whatever value the reply holds under
  the consulted key, so for the reply \<open>{directive: 42}\<close> the field \<open>directive\<close> is the number
  42, not a string.
\<close>

theorem C7_counterexample:
  "js_get (normalizeForDashboard_js (JObj [(''directive'', JNum 42)])) ''directive'' = JNum 42
   \<and> normalizeForDashboard_ts (JObj [(''directive'', JNum 42)]) =
       Inr (JObj [(''directive'', JNum 42), (''insight'', JStr []),
                  (''statusText'', JStr ''Optimal Baseline''),
                  (''protocolLogMessage'', JNum 42)])
   \<and> \<not> typeof_string (JNum 42)"
  by (simp add: normalizeForDashboard_js_def normalizeForDashboard_ts_def js_coalesce_def)

text \<open>
  Claim C7, amended. For every parsed reply that is an object (the empty object and arrays
  included), both normalizers return the same object; it has exactly the four keys
  \<open>directive\<close>, \<open>insight\<close>, \<open>statusText\<close>, \<open>protocolLogMessage\<close>, none of them \<open>null\<close> or
  \<open>undefined\<close>; each field is the first present value of its precedence chain, as it is;
  all four are strings when every consulted key of the reply is absent or holds a string;
  and \<open>statusText\<close> is \<open>Optimal Baseline\<close> when both \<open>status\<close> and
  \<open>statusText\<close> are absent. The reply with \<open>summary\<close> and \<open>analysis\<close> and the empty reply
  give the values the specification lists.
\<close>

theorem C7_normalizer_fields:
  "(is_object parsed \<longrightarrow>
      (\<exists>r. normalizeForDashboard_ts parsed = Inr r
           \<and> normalizeForDashboard_js parsed = r
           \<and> keys r = normalized_keys
           \<and> r = JObj
                 [(''directive'',
                     first_present [js_get parsed ''directive'', js_get parsed ''recommendation'',
                                    js_get parsed ''summary''] (JStr [])),
                  (''insight'',
                     first_present [js_get parsed ''insight'', js_get parsed ''analysis'']
                       (JStr [])),
                  (''statusText'',
                     first_present [js_get parsed ''status'', js_get parsed ''statusText'']
                       (JStr ''Optimal Baseline'')),
                  (''protocolLogMessage'',
                     first_present [js_get parsed ''protocolLogMessage'',
                                    js_get parsed ''directive'', js_get parsed ''summary'']
                       (JStr []))]
           \<and> (\<forall>k\<in>set normalized_keys. \<not> nullish (js_get r k))
           \<and> ((\<forall>k\<in>set consulted_keys. string_or_absent (js_get parsed k))
                \<longrightarrow> (\<forall>k\<in>set normalized_keys. typeof_string (js_get r k)))
           \<and> (nullish (js_get parsed ''status'') \<and> nullish (js_get parsed ''statusText'')
                \<longrightarrow> js_get r ''statusText'' = JStr ''Optimal Baseline'')))
   \<and> normalizeForDashboard_ts (JObj [(''summary'', JStr ''Increase hydration''),
                                      (''analysis'', JStr ''Electrolytes low'')])
       = Inr (JObj [(''directive'', JStr ''Increase hydration''),
                    (''insight'', JStr ''Electrolytes low''),
                    (''statusText'', JStr ''Optimal Baseline''),
                    (''protocolLogMessage'', JStr ''Increase hydration'')])
   \<and> normalizeForDashboard_js (JObj [(''summary'', JStr ''Increase hydration''),
                                      (''analysis'', JStr ''Electrolytes low'')])
       = JObj [(''directive'', JStr ''Increase hydration''),
               (''insight'', JStr ''Electrolytes low''),
               (''statusText'', JStr ''Optimal Baseline''),
               (''protocolLogMessage'', JStr ''Increase hydration'')]
   \<and> normalizeForDashboard_ts (JObj [])
       = Inr (JObj [(''directive'', JStr []), (''insight'', JStr []),
                    (''statusText'', JStr ''Optimal Baseline''),
                    (''protocolLogMessage'', JStr [])])"
proof -
  let ?r = "normalizeForDashboard_js parsed"
  have 1: "is_object parsed \<Longrightarrow> normalizeForDashboard_ts parsed = Inr ?r"
    by (rule normalize_ts_object)
  have 2: "is_object parsed \<Longrightarrow> keys ?r = normalized_keys"
    by (simp add: normalize_js_fields normalized_keys_def)
  have 3: "is_object parsed \<Longrightarrow> \<forall>k\<in>set normalized_keys. \<not> nullish (js_get ?r k)"
    by (simp add: normalize_js_fields normalized_keys_def first_present_not_nullish)
  have 4: "is_object parsed \<Longrightarrow> (\<forall>k\<in>set consulted_keys. string_or_absent (js_get parsed k))
                \<longrightarrow> (\<forall>k\<in>set normalized_keys. typeof_string (js_get ?r k))"
    by (simp add: normalize_js_fields normalized_keys_def consulted_keys_def first_present_string)
  have 5: "is_object parsed \<Longrightarrow>
             nullish (js_get parsed ''status'') \<and> nullish (js_get parsed ''statusText'')
                \<longrightarrow> js_get ?r ''statusText'' = JStr ''Optimal Baseline''"
    by (simp add: normalize_js_fields first_present_def)
  have 9: "is_object parsed \<Longrightarrow> ?r = JObj
                 [(''directive'',
                     first_present [js_get parsed ''directive'', js_get parsed ''recommendation'',
                                    js_get parsed ''summary''] (JStr [])),
                  (''insight'',
                     first_present [js_get parsed ''insight'', js_get parsed ''analysis'']
                       (JStr [])),
                  (''statusText'',
                     first_present [js_get parsed ''status'', js_get parsed ''statusText'']
                       (JStr ''Optimal Baseline'')),
                  (''protocolLogMessage'',
                     first_present [js_get parsed ''protocolLogMessage'',
                                    js_get parsed ''directive'', js_get parsed ''summary'']
                       (JStr []))]"
    by (rule normalize_js_fields)
  have 6: "normalizeForDashboard_ts (JObj [(''summary'', JStr ''Increase hydration''),
                                      (''analysis'', JStr ''Electrolytes low'')])
       = Inr (JObj [(''directive'', JStr ''Increase hydration''),
                    (''insight'', JStr ''Electrolytes low''),
                    (''statusText'', JStr ''Optimal Baseline''),
                    (''protocolLogMessage'', JStr ''Increase hydration'')])"
    by (simp add: normalizeForDashboard_ts_def js_coalesce_def)
  have 7: "normalizeForDashboard_js (JObj [(''summary'', JStr ''Increase hydration''),
                                      (''analysis'', JStr ''Electrolytes low'')])
       = JObj [(''directive'', JStr ''Increase hydration''),
               (''insight'', JStr ''Electrolytes low''),
               (''statusText'', JStr ''Optimal Baseline''),
               (''protocolLogMessage'', JStr ''Increase hydration'')]"
    by (simp add: normalizeForDashboard_js_def js_coalesce_def)
  have 8: "normalizeForDashboard_ts (JObj [])
       = Inr (JObj [(''directive'', JStr []), (''insight'', JStr []),
                    (''statusText'', JStr ''Optimal Baseline''),
                    (''protocolLogMessage'', JStr [])])"
    by (simp add: normalizeForDashboard_ts_def js_coalesce_def)
  from 1 2 9 3 4 5 6 7 8 show ?thesis by blast
qed

theorem C7_normalizer_fields_witness:
  "is_object (JObj [(''summary'', JStr ''Increase hydration'')])
   \<and> keys (normalizeForDashboard_js (JObj [(''summary'', JStr ''Increase hydration'')]))
       = [''directive'', ''insight'', ''statusText'', ''protocolLogMessage'']
   \<and> typeof_string (js_get (normalizeForDashboard_js
          (JObj [(''summary'', JStr ''Increase hydration'')])) ''statusText'')
   \<and> js_get (normalizeForDashboard_js (JObj [(''summary'', JStr ''Increase hydration'')]))
         ''statusText'' = JStr ''Optimal Baseline''"
  using C7_normalizer_fields [of "JObj [(''summary'', JStr ''Increase hydration'')]"]
  by (auto simp add: is_object_def normalized_keys_def consulted_keys_def string_or_absent_def)

text \<open>
  Claim C10. On an object, each field of the result is the first present value of its
  precedence chain, where a key bound to \<open>null\<close> or \<open>undefined\<close> counts as absent: dropping
  such a key from the reply changes nothing. Any other value is used as it is, the empty
  string, 0 and \<open>false\<close> included.
\<close>

theorem C10_nullish_is_absent:
  "(is_object parsed \<longrightarrow>
      (\<exists>r. normalizeForDashboard_ts parsed = Inr r \<and> r = normalizeForDashboard_js parsed
        \<and> js_get r ''directive'' =
            first_present [js_get parsed ''directive'', js_get parsed ''recommendation'',
                           js_get parsed ''summary''] (JStr [])
        \<and> js_get r ''insight'' =
            first_present [js_get parsed ''insight'', js_get parsed ''analysis''] (JStr [])
        \<and> js_get r ''statusText'' =
            first_present [js_get parsed ''status'', js_get parsed ''statusText'']
              (JStr ''Optimal Baseline'')
        \<and> js_get r ''protocolLogMessage'' =
            first_present [js_get parsed ''protocolLogMessage'', js_get parsed ''directive'',
                           js_get parsed ''summary''] (JStr [])))
   \<and> (nullish (js_get (JObj kvs) k) \<longrightarrow>
        normalizeForDashboard_js (JObj kvs) =
          normalizeForDashboard_js (JObj (filter (\<lambda>p. fst p \<noteq> k) kvs))
      \<and> normalizeForDashboard_ts (JObj kvs) =
          normalizeForDashboard_ts (JObj (filter (\<lambda>p. fst p \<noteq> k) kvs)))
   \<and> js_get (normalizeForDashboard_js (JObj [(''directive'', JNull), (''recommendation'', JStr ''R'')]))
        ''directive'' = JStr ''R''
   \<and> js_get (normalizeForDashboard_js (JObj [(''directive'', JStr [])])) ''directive'' = JStr []
   \<and> js_get (normalizeForDashboard_js (JObj [(''status'', JStr [])])) ''statusText'' = JStr []
   \<and> js_get (normalizeForDashboard_js (JObj [(''directive'', JNum 0)])) ''directive'' = JNum 0
   \<and> js_get (normalizeForDashboard_js (JObj [(''directive'', JBool False)])) ''directive''
        = JBool False"
proof -
  have a: "is_object parsed \<longrightarrow>
      (\<exists>r. normalizeForDashboard_ts parsed = Inr r \<and> r = normalizeForDashboard_js parsed
        \<and> js_get r ''directive'' =
            first_present [js_get parsed ''directive'', js_get parsed ''recommendation'',
                           js_get parsed ''summary''] (JStr [])
        \<and> js_get r ''insight'' =
            first_present [js_get parsed ''insight'', js_get parsed ''analysis''] (JStr [])
        \<and> js_get r ''statusText'' =
            first_present [js_get parsed ''status'', js_get parsed ''statusText'']
              (JStr ''Optimal Baseline'')
        \<and> js_get r ''protocolLogMessage'' =
            first_present [js_get parsed ''protocolLogMessage'', js_get parsed ''directive'',
                           js_get parsed ''summary''] (JStr []))"
    by (simp add: normalize_ts_object normalize_js_fields)
  have b: "nullish (js_get (JObj kvs) k) \<longrightarrow>
        normalizeForDashboard_js (JObj kvs) =
          normalizeForDashboard_js (JObj (filter (\<lambda>p. fst p \<noteq> k) kvs))
      \<and> normalizeForDashboard_ts (JObj kvs) =
          normalizeForDashboard_ts (JObj (filter (\<lambda>p. fst p \<noteq> k) kvs))"
    using normalize_js_drop_nullish [of kvs k]
    by (simp add: normalize_ts_object is_object_def del: js_get.simps)
  have c: "js_get (normalizeForDashboard_js (JObj [(''directive'', JNull), (''recommendation'', JStr ''R'')]))
        ''directive'' = JStr ''R''"
    by (simp add: normalizeForDashboard_js_def js_coalesce_def)
  have d: "js_get (normalizeForDashboard_js (JObj [(''directive'', JStr [])])) ''directive'' = JStr []"
    by (simp add: normalizeForDashboard_js_def js_coalesce_def)
  have e: "js_get (normalizeForDashboard_js (JObj [(''status'', JStr [])])) ''statusText'' = JStr []"
    by (simp add: normalizeForDashboard_js_def js_coalesce_def)
  have f: "js_get (normalizeForDashboard_js (JObj [(''directive'', JNum 0)])) ''directive'' = JNum 0"
    by (simp add: normalizeForDashboard_js_def js_coalesce_def)
  have g: "js_get (normalizeForDashboard_js (JObj [(''directive'', JBool False)])) ''directive''
        = JBool False"
    by (simp add: normalizeForDashboard_js_def js_coalesce_def)
  from a b c d e f g show ?thesis by blast
qed

theorem C10_nullish_is_absent_witness:
  "normalizeForDashboard_ts (JObj [(''directive'', JNull), (''recommendation'', JStr ''R'')])
     = normalizeForDashboard_ts (JObj [(''recommendation'', JStr ''R'')])
   \<and> normalizeForDashboard_ts (JObj [(''directive'', JNull), (''recommendation'', JStr ''R'')])
     = Inr (JObj [(''directive'', JStr ''R''), (''insight'', JStr []),
                  (''statusText'', JStr ''Optimal Baseline''), (''protocolLogMessage'', JStr [])])"
  using C10_nullish_is_absent [of "JObj [(''directive'', JNull), (''recommendation'', JStr ''R'')]"
      "[(''directive'', JNull), (''recommendation'', JStr ''R'')]" "''directive''"]
  by (auto simp add: is_object_def first_present_def normalizeForDashboard_js_def js_coalesce_def)

section \<open>Claim on the Response Extractor\<close>

text \<open>
  Claim C9, as stated, fails: an assistant message whose content is empty is answered with
  the error \<open>No assistant message in thread\<close> although an assistant message exists, and the
  edge function gives that same error for an assistant message that has parts but no text
  part.
\<close>

theorem C9_counterexample:
  "latest_text_js [\<lparr>msg_role = ''assistant'', msg_content = Some []\<rparr>]
     = Inl (Exn ''Error'' ''No assistant message in thread'')
   \<and> latest_text_ts [\<lparr>msg_role = ''assistant'', msg_content = Some []\<rparr>]
     = Inl (Exn ''Error'' ''No assistant message in thread'')
   \<and> list_ex (\<lambda>m. msg_role m = ''assistant'')
        [\<lparr>msg_role = ''assistant'', msg_content = Some []\<rparr>]
   \<and> latest_text_ts [\<lparr>msg_role = ''assistant'',
                        msg_content = Some [\<lparr>part_type = ''image_file'', part_text = None\<rparr>]\<rparr>]
     = Inl (Exn ''Error'' ''No assistant message in thread'')"
  by (simp add: latest_text_js_def latest_text_ts_def)

text \<open>
  Claim C9, amended. The list is requested newest first with a limit of 10, and only the
  first message with role \<open>assistant\<close> counts. The error is \<open>No assistant message in thread\<close>
  when the list has no assistant message, or when that message has no content or an empty
  content (and, in the edge function, when it has no text part). The error is
  \<open>No text content in assistant message\<close> when the first text part has no string value (and,
  in \<^verbatim>\<open>chronos-brain.js\<close>, when a non-empty content has no text part). Otherwise the
  string value of the first text part is returned as it is.
\<close>

theorem C9_extractor:
  "(\<not> list_ex is_assistant data \<longrightarrow>
       latest_text_js data = Inl MessageNotFound \<and> latest_text_ts data = Inl MessageNotFound)
   \<and> (first_where is_assistant data m \<longrightarrow>
        (msg_content m = None \<or> msg_content m = Some [] \<longrightarrow>
           latest_text_js data = Inl MessageNotFound \<and> latest_text_ts data = Inl MessageNotFound)
      \<and> (\<forall>ps. msg_content m = Some ps \<and> ps \<noteq> [] \<and> \<not> list_ex is_text_part ps \<longrightarrow>
           latest_text_js data = Inl NoTextContent \<and> latest_text_ts data = Inl MessageNotFound)
      \<and> (\<forall>ps p. msg_content m = Some ps \<and> first_where is_text_part ps p \<longrightarrow>
           (\<forall>s. part_text p = Some (JStr s) \<longrightarrow>
              latest_text_js data = Inr s \<and> latest_text_ts data = Inr s)
         \<and> ((\<forall>s. part_text p \<noteq> Some (JStr s)) \<longrightarrow>
              latest_text_js data = Inl NoTextContent \<and> latest_text_ts data = Inl NoTextContent)))
   \<and> (messages_list svc threadId = Inr data \<longrightarrow>
        getLatestAssistantMessage_js svc threadId tr
          = (latest_text_js data, tr @ [MessagesList threadId ''desc'' 10])
      \<and> getLatestAssistantMessage_ts svc threadId tr
          = (latest_text_ts data, tr @ [MessagesList threadId ''desc'' 10]))"
proof -
  have a: "\<not> list_ex is_assistant data \<Longrightarrow>
       latest_text_js data = Inl MessageNotFound \<and> latest_text_ts data = Inl MessageNotFound"
    using find_none [of is_assistant data]
    by (simp add: latest_text_js_def latest_text_ts_def MessageNotFound_def is_assistant_eq)
  have f: "first_where is_assistant data m \<Longrightarrow> find (\<lambda>m. msg_role m = ''assistant'') data = Some m"
    using find_first_where [of is_assistant data m] by (simp add: is_assistant_eq)
  have b: "first_where is_assistant data m \<Longrightarrow> msg_content m = None \<or> msg_content m = Some [] \<Longrightarrow>
           latest_text_js data = Inl MessageNotFound \<and> latest_text_ts data = Inl MessageNotFound"
    using f by (auto simp add: latest_text_js_def latest_text_ts_def MessageNotFound_def)
  have c: "first_where is_assistant data m \<Longrightarrow>
           msg_content m = Some ps \<and> ps \<noteq> [] \<and> \<not> list_ex is_text_part ps \<Longrightarrow>
           latest_text_js data = Inl NoTextContent \<and> latest_text_ts data = Inl MessageNotFound" for ps
    using f find_none [of is_text_part ps]
    by (auto simp add: latest_text_js_def latest_text_ts_def MessageNotFound_def
        NoTextContent_def is_text_part_eq)
  have g: "first_where is_text_part ps p \<Longrightarrow>
             find (\<lambda>p. part_type p = ''text'') ps = Some p
             \<and> list_ex (\<lambda>p. part_type p = ''text'') ps \<and> ps \<noteq> []" for ps p
    using find_first_where [of is_text_part ps p] first_where_ex [of is_text_part ps p]
    by (auto simp add: is_text_part_eq first_where_def)
  have d: "first_where is_assistant data m \<Longrightarrow>
           msg_content m = Some ps \<and> first_where is_text_part ps p \<Longrightarrow>
           part_text p = Some (JStr s) \<Longrightarrow>
              latest_text_js data = Inr s \<and> latest_text_ts data = Inr s" for ps p s
    using f g [of ps p]
    by (auto simp add: latest_text_js_def latest_text_ts_def)
  have e: "first_where is_assistant data m \<Longrightarrow>
           msg_content m = Some ps \<and> first_where is_text_part ps p \<Longrightarrow>
           (\<forall>s. part_text p \<noteq> Some (JStr s)) \<Longrightarrow>
              latest_text_js data = Inl NoTextContent \<and> latest_text_ts data = Inl NoTextContent"
    for ps p
    using f g [of ps p]
    by (auto simp add: latest_text_js_def latest_text_ts_def NoTextContent_def
        split: option.splits jsval.splits)
  have h: "messages_list svc threadId = Inr data \<Longrightarrow>
        getLatestAssistantMessage_js svc threadId tr
          = (latest_text_js data, tr @ [MessagesList threadId ''desc'' 10])
      \<and> getLatestAssistantMessage_ts svc threadId tr
          = (latest_text_ts data, tr @ [MessagesList threadId ''desc'' 10])"
    by (simp add: getLatestAssistantMessage_js_def getLatestAssistantMessage_ts_def)
  from a b c d e h show ?thesis by blast
qed

theorem C9_extractor_witness:
  "first_where is_assistant
     [\<lparr>msg_role = ''user'', msg_content = None\<rparr>,
      \<lparr>msg_role = ''assistant'',
       msg_content = Some [\<lparr>part_type = ''image_file'', part_text = None\<rparr>,
                           \<lparr>part_type = ''text'', part_text = Some (JStr '' {} '')\<rparr>]\<rparr>]
     \<lparr>msg_role = ''assistant'',
       msg_content = Some [\<lparr>part_type = ''image_file'', part_text = None\<rparr>,
                           \<lparr>part_type = ''text'', part_text = Some (JStr '' {} '')\<rparr>]\<rparr>
   \<and> first_where is_text_part
        [\<lparr>part_type = ''image_file'', part_text = None\<rparr>,
         \<lparr>part_type = ''text'', part_text = Some (JStr '' {} '')\<rparr>]
        \<lparr>part_type = ''text'', part_text = Some (JStr '' {} '')\<rparr>
   \<and> latest_text_js
     [\<lparr>msg_role = ''user'', msg_content = None\<rparr>,
      \<lparr>msg_role = ''assistant'',
       msg_content = Some [\<lparr>part_type = ''image_file'', part_text = None\<rparr>,
                           \<lparr>part_type = ''text'', part_text = Some (JStr '' {} '')\<rparr>]\<rparr>]
     = Inr '' {} ''"
proof -
  let ?p = "\<lparr>part_type = ''text'', part_text = Some (JStr '' {} '')\<rparr>"
  let ?ps = "[\<lparr>part_type = ''image_file'', part_text = None\<rparr>, ?p]"
  let ?m = "\<lparr>msg_role = ''assistant'', msg_content = Some ?ps\<rparr>"
  let ?data = "[\<lparr>msg_role = ''user'', msg_content = None\<rparr>, ?m]"
  have 1: "first_where is_assistant ?data ?m"
    unfolding first_where_def
    by (rule exI [of _ "[\<lparr>msg_role = ''user'', msg_content = None\<rparr>]"], rule exI [of _ "[]"])
       (simp add: is_assistant_def)
  have 2: "first_where is_text_part ?ps ?p"
    unfolding first_where_def
    by (rule exI [of _ "[\<lparr>part_type = ''image_file'', part_text = None\<rparr>]"], rule exI [of _ "[]"])
       (simp add: is_text_part_def)
  from 1 2 C9_extractor [of ?data ?m] show ?thesis by auto
qed

section \<open>Claims on the Payload Formatter and on the two variants\<close>

text \<open>
  Claim C3, as stated, fails: the two files differ on some inputs. For \<open>{biometrics: "abc"}\<close>
  the formatter of \<^verbatim>\<open>chronos-brain.js\<close> answers \<open>No data provided.\<close> and the one of the edge
  function renders the whole input; for \<open>{clinical_markers: 0, labs: {}}\<close> the first takes
  the labs from \<open>labs\<close> and the second renders the whole input; for the parsed value 42 the
  first normalizer gives an empty \<open>statusText\<close> and the second \<open>Optimal Baseline\<close>; for
  \<open>null\<close> the second raises a TypeError.
\<close>

theorem C3_counterexample:
  "formatUserDataPayload_js (JObj [(''biometrics'', JStr ''abc'')]) = Some ''No data provided.''
   \<and> formatUserDataPayload_ts (JObj [(''biometrics'', JStr ''abc'')])
       = Some (''{\<newline>  '' @ [CHR 0x22] @ ''biometrics'' @ [CHR 0x22] @ '': ''
               @ [CHR 0x22] @ ''abc'' @ [CHR 0x22] @ ''\<newline>}'')
   \<and> formatUserDataPayload_js (JObj [(''clinical_markers'', JNum 0), (''labs'', JObj [])])
       = Some ''## Labs / Clinical\<newline>{}''
   \<and> formatUserDataPayload_ts (JObj [(''clinical_markers'', JNum 0), (''labs'', JObj [])])
       = Some (''{\<newline>  '' @ [CHR 0x22] @ ''clinical_markers'' @ [CHR 0x22] @ '': 0,\<newline>  ''
               @ [CHR 0x22] @ ''labs'' @ [CHR 0x22] @ '': {}\<newline>}'')
   \<and> normalizeForDashboard_js (JNum 42)
       = JObj [(''directive'', JStr []), (''insight'', JStr []), (''statusText'', JStr []),
               (''protocolLogMessage'', JStr [])]
   \<and> normalizeForDashboard_ts (JNum 42)
       = Inr (JObj [(''directive'', JStr []), (''insight'', JStr []),
                    (''statusText'', JStr ''Optimal Baseline''),
                    (''protocolLogMessage'', JStr [])])
   \<and> normalizeForDashboard_ts JNull
       = Inl (Exn ''TypeError'' ''Cannot read properties of null (reading 'directive')'')"
proof -
  have 1: "formatUserDataPayload_js (JObj [(''biometrics'', JStr ''abc'')])
             = Some ''No data provided.''"
    by (simp add: formatUserDataPayload_js_def formatExecutivePayload_def js_or_def)
  have 2: "formatUserDataPayload_ts (JObj [(''biometrics'', JStr ''abc'')])
       = Some (''{\<newline>  '' @ [CHR 0x22] @ ''biometrics'' @ [CHR 0x22] @ '': ''
               @ [CHR 0x22] @ ''abc'' @ [CHR 0x22] @ ''\<newline>}'')"
    by (simp add: formatUserDataPayload_ts_def js_coalesce_def stringify_def quote_def
        quote_char_def indent_0 indent_1)
  have 3: "formatUserDataPayload_js (JObj [(''clinical_markers'', JNum 0), (''labs'', JObj [])])
       = Some ''## Labs / Clinical\<newline>{}''"
    by (simp add: formatUserDataPayload_js_def formatExecutivePayload_def js_or_def
        stringify_def plus_str_def)
  have 4: "formatUserDataPayload_ts (JObj [(''clinical_markers'', JNum 0), (''labs'', JObj [])])
       = Some (''{\<newline>  '' @ [CHR 0x22] @ ''clinical_markers'' @ [CHR 0x22] @ '': 0,\<newline>  ''
               @ [CHR 0x22] @ ''labs'' @ [CHR 0x22] @ '': {}\<newline>}'')"
    by (simp add: formatUserDataPayload_ts_def js_coalesce_def stringify_def quote_def
        quote_char_def indent_0 indent_1 number_to_string_def digit_chars)
  have 5: "normalizeForDashboard_js (JNum 42)
       = JObj [(''directive'', JStr []), (''insight'', JStr []), (''statusText'', JStr []),
               (''protocolLogMessage'', JStr [])]"
    by (simp add: normalizeForDashboard_js_def)
  have 6: "normalizeForDashboard_ts (JNum 42)
       = Inr (JObj [(''directive'', JStr []), (''insight'', JStr []),
                    (''statusText'', JStr ''Optimal Baseline''),
                    (''protocolLogMessage'', JStr [])])"
    by (simp add: normalizeForDashboard_ts_def js_coalesce_def)
  have 7: "normalizeForDashboard_ts JNull
       = Inl (Exn ''TypeError'' ''Cannot read properties of null (reading 'directive')'')"
    by (simp add: normalizeForDashboard_ts_def)
  from 1 2 3 4 5 6 7 show ?thesis by blast
qed

text \<open>
  Claim C3, amended. The two formatters return the same string for every input that is not
  an object, and for every object whose fields \<open>biometrics\<close>, \<open>clinical_markers\<close>,
  \<open>clinical_audit\<close>, \<open>labs\<close>, \<open>calendar_events\<close> and \<open>calendar\<close> are each absent (\<open>null\<close> or
  \<open>undefined\<close>) or an object or array. The two normalizers return the same four fields for
  every parsed value that is an object or array.
\<close>

theorem C3_variants_agree:
  "(\<not> is_object ud \<longrightarrow> formatUserDataPayload_js ud = formatUserDataPayload_ts ud)
   \<and> (is_object ud \<and> (\<forall>k\<in>set payload_keys. absent_or_object (js_get ud k))
        \<longrightarrow> formatUserDataPayload_js ud = formatUserDataPayload_ts ud)
   \<and> (is_object parsed \<longrightarrow>
        normalizeForDashboard_ts parsed = Inr (normalizeForDashboard_js parsed))"
  using format_not_object [of ud] formatters_agree [of ud] normalize_ts_object [of parsed]
  by auto

theorem C3_variants_agree_witness:
  "is_object (JObj [(''biometrics'', JObj []), (''clinical_audit'', JArr []), (''labs'', JNull)])
   \<and> formatUserDataPayload_js
         (JObj [(''biometrics'', JObj []), (''clinical_audit'', JArr []), (''labs'', JNull)])
       = formatUserDataPayload_ts
         (JObj [(''biometrics'', JObj []), (''clinical_audit'', JArr []), (''labs'', JNull)])
   \<and> formatUserDataPayload_ts
         (JObj [(''biometrics'', JObj []), (''clinical_audit'', JArr []), (''labs'', JNull)])
       = Some ''## Biometrics\<newline>{}\<newline>\<newline>## Labs / Clinical\<newline>[]''
   \<and> normalizeForDashboard_ts (JObj [(''insight'', JStr ''x'')])
       = Inr (normalizeForDashboard_js (JObj [(''insight'', JStr ''x'')]))"
proof -
  let ?ud = "JObj [(''biometrics'', JObj []), (''clinical_audit'', JArr []), (''labs'', JNull)]"
  have 1: "is_object ?ud"
    by (simp add: is_object_def)
  have 2: "\<forall>k\<in>set payload_keys. absent_or_object (js_get ?ud k)"
    by (simp add: payload_keys_def absent_or_object_def is_object_def)
  have 3: "formatUserDataPayload_ts ?ud
       = Some ''## Biometrics\<newline>{}\<newline>\<newline>## Labs / Clinical\<newline>[]''"
    by (simp add: formatUserDataPayload_ts_def js_coalesce_def stringify_def plus_str_def)
  have 4: "is_object (JObj [(''insight'', JStr ''x'')])"
    by (simp add: is_object_def)
  from 1 2 3 4 C3_variants_agree [of ?ud "JObj [(''insight'', JStr ''x'')]"]
  show ?thesis by simp
qed


text \<open>
  Claim C6, as stated, fails for \<^verbatim>\<open>chronos-brain.js\<close>: for \<open>{biometrics: "abc"}\<close>, an object
  with no section to emit, it answers \<open>No data provided.\<close> and not the rendering of the
  input; and for \<open>{clinical_markers: 0, labs: {}}\<close> it takes the labs from \<open>labs\<close>, not from
  the first candidate that is not \<open>null\<close>.
\<close>

theorem C6_counterexample:
  "is_object (JObj [(''biometrics'', JStr ''abc'')])
   \<and> sections_of (js_get (JObj [(''biometrics'', JStr ''abc'')]) ''biometrics'') JUndefined
        JUndefined = []
   \<and> formatUserDataPayload_js (JObj [(''biometrics'', JStr ''abc'')]) = Some ''No data provided.''
   \<and> stringify (JObj [(''biometrics'', JStr ''abc'')])
       = Some (''{\<newline>  '' @ [CHR 0x22] @ ''biometrics'' @ [CHR 0x22] @ '': ''
               @ [CHR 0x22] @ ''abc'' @ [CHR 0x22] @ ''\<newline>}'')
   \<and> first_present [JNum 0, JUndefined] (JObj []) = JNum 0
   \<and> formatUserDataPayload_js (JObj [(''clinical_markers'', JNum 0), (''labs'', JObj [])])
       = Some ''## Labs / Clinical\<newline>{}''"
proof -
  have 1: "formatUserDataPayload_js (JObj [(''biometrics'', JStr ''abc'')])
             = Some ''No data provided.''"
    by (simp add: formatUserDataPayload_js_def formatExecutivePayload_def js_or_def)
  have 2: "stringify (JObj [(''biometrics'', JStr ''abc'')])
       = Some (''{\<newline>  '' @ [CHR 0x22] @ ''biometrics'' @ [CHR 0x22] @ '': ''
               @ [CHR 0x22] @ ''abc'' @ [CHR 0x22] @ ''\<newline>}'')"
    by (simp add: stringify_def quote_def quote_char_def indent_0 indent_1)
  have 3: "formatUserDataPayload_js (JObj [(''clinical_markers'', JNum 0), (''labs'', JObj [])])
       = Some ''## Labs / Clinical\<newline>{}''"
    by (simp add: formatUserDataPayload_js_def formatExecutivePayload_def js_or_def
        stringify_def plus_str_def)
  have 4: "is_object (JObj [(''biometrics'', JStr ''abc'')])"
    by (simp add: is_object_def)
  have 5: "sections_of (js_get (JObj [(''biometrics'', JStr ''abc'')]) ''biometrics'') JUndefined
        JUndefined = []"
    by (simp add: sections_of_def section_of_def is_object_def)
  have 6: "first_present [JNum 0, JUndefined] (JObj []) = JNum 0"
    by (simp add: first_present_def)
  from 1 2 3 4 5 6 show ?thesis by blast
qed

text \<open>
  Claim C6, amended. Both formatters return a non-empty string for every input, and the
  literal \<open>No data provided.\<close> for an input that is not an object. On an object, the edge
  function takes the labs from the first of \<open>clinical_markers\<close>, \<open>clinical_audit\<close>, \<open>labs\<close>
  that is not \<open>null\<close> or \<open>undefined\<close> (the calendar likewise from \<open>calendar_events\<close>,
  \<open>calendar\<close>), emits the sections of the values that are objects in the order biometrics,
  labs, calendar, and renders the whole input when there is no section. On an object,
  \<^verbatim>\<open>chronos-brain.js\<close> takes the labs and the calendar from the first truthy candidate,
  renders the whole input when none of the three values is truthy, and emits the sections
  in the same order when there is one.
\<close>

theorem C6_formatter:
  "(\<exists>s. formatUserDataPayload_ts ud = Some s \<and> s \<noteq> [])
   \<and> (\<exists>s. formatUserDataPayload_js ud = Some s \<and> s \<noteq> [])
   \<and> (\<not> is_object ud \<longrightarrow>
         formatUserDataPayload_ts ud = Some ''No data provided.''
       \<and> formatUserDataPayload_js ud = Some ''No data provided.'')
   \<and> (is_object ud \<longrightarrow>
         formatUserDataPayload_ts ud =
           (let secs = sections_of (js_get ud ''biometrics'')
                   (first_present [js_get ud ''clinical_markers'', js_get ud ''clinical_audit'']
                      (js_get ud ''labs''))
                   (first_present [js_get ud ''calendar_events''] (js_get ud ''calendar''))
            in if secs = [] then stringify ud else Some (join ''\<newline>\<newline>'' secs)))
   \<and> (is_object ud \<longrightarrow>
         (let b = js_get ud ''biometrics'';
              l = first_truthy [js_get ud ''clinical_markers'', js_get ud ''clinical_audit'']
                    (js_get ud ''labs'');
              c = first_truthy [js_get ud ''calendar_events''] (js_get ud ''calendar'')
          in (\<not> (truthy b \<or> truthy l \<or> truthy c) \<longrightarrow>
                formatUserDataPayload_js ud = stringify ud)
           \<and> (sections_of b l c \<noteq> [] \<longrightarrow>
                formatUserDataPayload_js ud = Some (join ''\<newline>\<newline>'' (sections_of b l c)))))"
proof -
  have 5: "is_object ud \<Longrightarrow>
         (let b = js_get ud ''biometrics'';
              l = first_truthy [js_get ud ''clinical_markers'', js_get ud ''clinical_audit'']
                    (js_get ud ''labs'');
              c = first_truthy [js_get ud ''calendar_events''] (js_get ud ''calendar'')
          in (\<not> (truthy b \<or> truthy l \<or> truthy c) \<longrightarrow>
                formatUserDataPayload_js ud = stringify ud)
           \<and> (sections_of b l c \<noteq> [] \<longrightarrow>
                formatUserDataPayload_js ud = Some (join ''\<newline>\<newline>'' (sections_of b l c))))"
    by (auto simp add: format_js_sections Let_def sections_empty_iff is_object_def)
  from format_ts_nonempty [of ud] format_js_nonempty [of ud] format_not_object [of ud]
    format_ts_sections [of ud] 5
  show ?thesis by blast
qed

theorem C6_formatter_witness:
  "is_object (JObj [(''labs'', JObj []), (''calendar'', JArr []), (''biometrics'', JObj [])])
   \<and> formatUserDataPayload_ts
        (JObj [(''labs'', JObj []), (''calendar'', JArr []), (''biometrics'', JObj [])])
      = Some ''## Biometrics\<newline>{}\<newline>\<newline>## Labs / Clinical\<newline>{}\<newline>\<newline>## Calendar\<newline>[]''
   \<and> formatUserDataPayload_js
        (JObj [(''labs'', JObj []), (''calendar'', JArr []), (''biometrics'', JObj [])])
      = Some ''## Biometrics\<newline>{}\<newline>\<newline>## Labs / Clinical\<newline>{}\<newline>\<newline>## Calendar\<newline>[]''
   \<and> formatUserDataPayload_ts (JNum 7) = Some ''No data provided.''"
proof -
  let ?ud = "JObj [(''labs'', JObj []), (''calendar'', JArr []), (''biometrics'', JObj [])]"
  have 1: "is_object ?ud" "\<not> is_object (JNum 7)"
    by (simp_all add: is_object_def)
  have 2: "sections_of (JObj []) (JObj []) (JArr [])
             = [''## Biometrics\<newline>{}'', ''## Labs / Clinical\<newline>{}'', ''## Calendar\<newline>[]'']"
    by (simp add: sections_of_def section_of_def is_object_def stringify_def plus_str_def)
  from 1 C6_formatter [of ?ud] C6_formatter [of "JNum 7"] show ?thesis
    by (simp add: first_present_def first_truthy_def 2 Let_def)
qed

section \<open>Claim on the JSON Parser\<close>



section \<open>Claim on the poll loop\<close>

text \<open>
  Claim C5. Let every read of the run yield a status. \<open>waitForRun\<close> returns normally exactly
  when some read yields \<open>completed\<close> while the loop condition still holds and no earlier read
  was terminal; it raises the error that carries the status \<open>failed\<close>, \<open>cancelled\<close> or
  \<open>expired\<close> exactly when some read yields that status in the same way; and it raises the
  timeout error exactly when the maximum wait elapses before any terminal status is read.
  Between two reads it sleeps for the poll interval. The defaults are 120000 and 1500
  milliseconds; with them, and a clock on which each sleep lasts at least the interval, the
  loop condition fails at the latest after 80 reads and \<open>waitForRun\<close> returns or raises.
\<close>

theorem C5_poll_loop:
  assumes reads: "\<forall>i. runs_retrieve svc t r i = Inr (st i)"
  shows
  "((\<exists>tr'. waitForRun_ts svc t r om op tr = Some (Inr (), tr')) \<longleftrightarrow>
      (\<exists>n. (\<forall>j<n. within svc (default_maxWaitMs om) j \<and> \<not> terminal (st j))
          \<and> within svc (default_maxWaitMs om) n \<and> st n = ''completed''))
   \<and> ((\<exists>tr'. waitForRun_js svc t r om op tr = Some (Inr ''completed'', tr')) \<longleftrightarrow>
      (\<exists>n. (\<forall>j<n. within svc (default_maxWaitMs om) j \<and> \<not> terminal (st j))
          \<and> within svc (default_maxWaitMs om) n \<and> st n = ''completed''))
   \<and> (\<forall>s. abnormal s \<longrightarrow>
        ((\<exists>tr'. waitForRun_ts svc t r om op tr = Some (Inl (RunTerminatedAbnormally s), tr'))
           \<longleftrightarrow> (\<exists>n. (\<forall>j<n. within svc (default_maxWaitMs om) j \<and> \<not> terminal (st j))
                  \<and> within svc (default_maxWaitMs om) n \<and> st n = s))
      \<and> ((\<exists>tr'. waitForRun_js svc t r om op tr = Some (Inl (RunTerminatedAbnormally s), tr'))
           \<longleftrightarrow> (\<exists>n. (\<forall>j<n. within svc (default_maxWaitMs om) j \<and> \<not> terminal (st j))
                  \<and> within svc (default_maxWaitMs om) n \<and> st n = s)))
   \<and> ((\<exists>tr'. waitForRun_ts svc t r om op tr = Some (Inl RunTimeout, tr')) \<longleftrightarrow>
      (\<exists>n. (\<forall>j<n. within svc (default_maxWaitMs om) j \<and> \<not> terminal (st j))
          \<and> \<not> within svc (default_maxWaitMs om) n))
   \<and> ((\<exists>tr'. waitForRun_js svc t r om op tr = Some (Inl RunTimeout, tr')) \<longleftrightarrow>
      (\<exists>n. (\<forall>j<n. within svc (default_maxWaitMs om) j \<and> \<not> terminal (st j))
          \<and> \<not> within svc (default_maxWaitMs om) n))
   \<and> (\<forall>n. (\<forall>j<n. within svc (default_maxWaitMs om) j \<and> \<not> terminal (st j))
          \<and> within svc (default_maxWaitMs om) n \<and> st n = ''completed'' \<longrightarrow>
        waitForRun_js svc t r om op tr
          = Some (Inr ''completed'',
                  tr @ poll_events t r (default_pollIntervalMs op) n @ [RunsRetrieve t r]))
   \<and> default_maxWaitMs None = 120000 \<and> default_pollIntervalMs None = 1500
   \<and> (clock_advances svc 1500 \<longrightarrow>
        \<not> within svc 120000 80
      \<and> (\<exists>y. waitForRun_ts svc t r None None tr = Some y)
      \<and> (\<exists>y. waitForRun_js svc t r None None tr = Some y))"
proof -
  note c = js_completed_iff [OF reads, of om op tr]
  have a: "(\<exists>tr'. waitForRun_ts svc t r om op tr = Some (Inr (), tr')) \<longleftrightarrow>
      (\<exists>n. (\<forall>j<n. within svc (default_maxWaitMs om) j \<and> \<not> terminal (st j))
          \<and> within svc (default_maxWaitMs om) n \<and> st n = ''completed'')"
    unfolding ts_of_js c by blast
  have g: "\<forall>n. (\<forall>j<n. within svc (default_maxWaitMs om) j \<and> \<not> terminal (st j))
          \<and> within svc (default_maxWaitMs om) n \<and> st n = ''completed'' \<longrightarrow>
        waitForRun_js svc t r om op tr
          = Some (Inr ''completed'',
                  tr @ poll_events t r (default_pollIntervalMs op) n @ [RunsRetrieve t r])"
    unfolding waitForRun_js_reads [OF reads] by blast
  have h: "clock_advances svc 1500 \<longrightarrow>
        \<not> within svc 120000 80
      \<and> (\<exists>y. waitForRun_ts svc t r None None tr = Some y)
      \<and> (\<exists>y. waitForRun_js svc t r None None tr = Some y)"
  proof (rule impI)
    assume "clock_advances svc 1500"
    then have nw: "\<not> within svc 120000 80"
      by (rule default_window_closes)
    then have "\<not> within svc (default_maxWaitMs None) 80"
      by (simp add: default_maxWaitMs_def)
    then have js: "\<exists>y. waitForRun_js svc t r None None tr = Some y"
      by (rule not_within_returns)
    then have ts: "\<exists>y. waitForRun_ts svc t r None None tr = Some y"
      by (simp only: ts_of_js(3))
    from nw ts js show "\<not> within svc 120000 80
      \<and> (\<exists>y. waitForRun_ts svc t r None None tr = Some y)
      \<and> (\<exists>y. waitForRun_js svc t r None None tr = Some y)"
      by (intro conjI)
  qed
  have d: "default_maxWaitMs None = 120000 \<and> default_pollIntervalMs None = 1500"
    by (simp add: default_maxWaitMs_def default_pollIntervalMs_def)
  from a c [of "''completed''"] js_abnormal_iff [OF reads, of _ om op tr]
    js_timeout_iff [OF reads, of om op tr] g h d
  show ?thesis
    unfolding ts_of_js by simp
qed


theorem C5_poll_loop_witness:
  "waitForRun_js (demo_service demo_statuses (Inr [])) ''thread_1'' ''run_1'' None None []
     = Some (Inr ''completed'',
             [RunsRetrieve ''thread_1'' ''run_1'', SetTimeout 1500,
              RunsRetrieve ''thread_1'' ''run_1'', SetTimeout 1500,
              RunsRetrieve ''thread_1'' ''run_1''])
   \<and> (\<exists>tr'. waitForRun_ts (demo_service demo_statuses (Inr [])) ''thread_1'' ''run_1'' None None []
          = Some (Inr (), tr'))
   \<and> (\<exists>tr'. waitForRun_ts (demo_service (\<lambda>i. ''failed'') (Inr [])) ''thread_1'' ''run_1'' None None []
          = Some (Inl (Exn ''Error'' ''Run ended with status: failed''), tr'))
   \<and> (\<exists>tr'. waitForRun_ts (demo_service (\<lambda>i. ''queued'') (Inr [])) ''thread_1'' ''run_1''
               (Some 3000) None []
          = Some (Inl (Exn ''Error'' ''Run did not complete within max wait time''), tr'))"
proof -
  let ?svc = "demo_service demo_statuses (Inr [])"
  have reads: "\<forall>i. runs_retrieve (demo_service st (Inr [])) ''thread_1'' ''run_1'' i = Inr (st i)"
    for st
    by (simp add: demo_service_def)
  have w: "within (demo_service st (Inr [])) m j \<longleftrightarrow> 1500 * (1 + int j) < m" for st m j
    by (simp add: within_def demo_service_def)
  have p1: "(\<forall>j<2. within ?svc (default_maxWaitMs None) j \<and> \<not> terminal (demo_statuses j))
          \<and> within ?svc (default_maxWaitMs None) 2 \<and> demo_statuses 2 = ''completed''"
    by (simp add: w default_maxWaitMs_def demo_statuses_def terminal_def)
  have p2: "(\<forall>j<0. within (demo_service (\<lambda>i. ''failed'') (Inr [])) (default_maxWaitMs None) j
                \<and> \<not> terminal ''failed'')
          \<and> within (demo_service (\<lambda>i. ''failed'') (Inr [])) (default_maxWaitMs None) 0
          \<and> abnormal ''failed''"
    by (simp add: w default_maxWaitMs_def abnormal_def)
  have p3: "(\<forall>j<1. within (demo_service (\<lambda>i. ''queued'') (Inr [])) (default_maxWaitMs (Some 3000)) j
                \<and> \<not> terminal ''queued'')
          \<and> \<not> within (demo_service (\<lambda>i. ''queued'') (Inr [])) (default_maxWaitMs (Some 3000)) 1"
    by (simp add: w default_maxWaitMs_def terminal_def)
  note t1 = C5_poll_loop [OF reads [of demo_statuses], of None None "[]"]
  note t2 = C5_poll_loop [OF reads [of "\<lambda>i. ''failed''"], of None None "[]"]
  note t3 = C5_poll_loop [OF reads [of "\<lambda>i. ''queued''"], of "Some 3000" None "[]"]
  have a: "waitForRun_js ?svc ''thread_1'' ''run_1'' None None []
     = Some (Inr ''completed'',
             [] @ poll_events ''thread_1'' ''run_1'' (default_pollIntervalMs None) 2
                @ [RunsRetrieve ''thread_1'' ''run_1''])"
    using t1 p1 by blast
  have b: "\<exists>tr'. waitForRun_ts ?svc ''thread_1'' ''run_1'' None None [] = Some (Inr (), tr')"
    using t1 p1 by blast
  have c: "\<exists>tr'. waitForRun_ts (demo_service (\<lambda>i. ''failed'') (Inr [])) ''thread_1'' ''run_1''
                 None None []
          = Some (Inl (RunTerminatedAbnormally ''failed''), tr')"
    using t2 p2 by blast
  have d: "\<exists>tr'. waitForRun_ts (demo_service (\<lambda>i. ''queued'') (Inr [])) ''thread_1'' ''run_1''
               (Some 3000) None []
          = Some (Inl RunTimeout, tr')"
    using t3 p3 by blast
  from a b c d show ?thesis
    by (simp add: poll_events_def default_pollIntervalMs_def RunTimeout_def
        RunTerminatedAbnormally_def numeral_2_eq_2)
qed

section \<open>Claims on \<open>runProtocolAnalysis\<close>\<close>

text \<open>
  Claim C4. Without a credential (the variable is not set, or is the empty string) the
  analysis returns the cached outcome, with \<open>protocolCached\<close> true and status \<open>cached\<close>, and
  makes no call to the assistant service. The edge function reports the error
  \<open>OPENAI_API_KEY not set\<close>; \<^verbatim>\<open>chronos-brain.js\<close> reports the error its \<open>getClient\<close> throws,
  \<open>OPENAI_API_KEY is not set\<close>, and logs it.
\<close>

theorem C4_no_credential:
  "no_credential key \<longrightarrow>
     (\<exists>r. runProtocolAnalysis_ts jp key svc ud = Some (Inr r, [])
          \<and> is_cached r \<and> js_get r ''error'' = JStr ''OPENAI_API_KEY not set'')
   \<and> (\<exists>r tr. runProtocolAnalysis_js jp key svc ud = Some (Inr r, tr)
          \<and> is_cached r \<and> js_get r ''error'' = JStr ''OPENAI_API_KEY is not set''
          \<and> filter outbound tr = [])"
proof (rule impI)
  assume k: "no_credential key"
  have ts: "runProtocolAnalysis_ts jp key svc ud
      = Some (Inr (cached_object_ts ''Using last known protocol. OPENAI_API_KEY not set.''
                     ''OPENAI_API_KEY not set''), [])"
    using k by (simp add: run_ts_of_analysis)
  have a: "analysis_js jp key svc ud = Some (Inl (Exn ''Error'' ''OPENAI_API_KEY is not set''), [])"
    using k by (auto simp add: analysis_js_def getClient_def no_credential_def)
  have js: "runProtocolAnalysis_js jp key svc ud
      = Some (Inr (JObj (PROTOCOL_CACHED_FALLBACK
                          @ [(''error'', JStr ''OPENAI_API_KEY is not set'')])),
              [ConsoleError ''Chronos Brain runProtocolAnalysis error:''
                 ''OPENAI_API_KEY is not set''])"
    by (simp add: run_js_of_analysis a error_text_js_def)
  from ts js cached_object_ts_shape [of "''Using last known protocol. OPENAI_API_KEY not set.''"
      "''OPENAI_API_KEY not set''"]
    cached_object_js_shape [of "''OPENAI_API_KEY is not set''"]
  show "(\<exists>r. runProtocolAnalysis_ts jp key svc ud = Some (Inr r, [])
          \<and> is_cached r \<and> js_get r ''error'' = JStr ''OPENAI_API_KEY not set'')
   \<and> (\<exists>r tr. runProtocolAnalysis_js jp key svc ud = Some (Inr r, tr)
          \<and> is_cached r \<and> js_get r ''error'' = JStr ''OPENAI_API_KEY is not set''
          \<and> filter outbound tr = [])"
    by simp
qed

theorem C4_no_credential_witness:
  "no_credential None
   \<and> runProtocolAnalysis_ts parse_table None (demo_service demo_statuses (Inr demo_messages))
        (JObj [(''biometrics'', JObj [])])
      = Some (Inr (JObj
             [(''protocolCached'', JBool True),
              (''message'', JStr ''Protocol Cached''),
              (''status'', JStr ''cached''),
              (''directive'', JStr ''Using last known protocol. OPENAI_API_KEY not set.''),
              (''insight'', JStr []),
              (''statusText'', JStr ''Protocol Cached''),
              (''protocolLogMessage'', JStr []),
              (''error'', JStr ''OPENAI_API_KEY not set'')]), [])
   \<and> (\<exists>r tr. runProtocolAnalysis_js parse_table None
                 (demo_service demo_statuses (Inr demo_messages))
                 (JObj [(''biometrics'', JObj [])]) = Some (Inr r, tr)
          \<and> js_get r ''error'' = JStr ''OPENAI_API_KEY is not set''
          \<and> filter outbound tr = [])"
proof -
  have 1: "no_credential None"
    by (simp add: no_credential_def)
  have 2: "runProtocolAnalysis_ts parse_table None (demo_service demo_statuses (Inr demo_messages))
        (JObj [(''biometrics'', JObj [])])
      = Some (Inr (JObj
             [(''protocolCached'', JBool True),
              (''message'', JStr ''Protocol Cached''),
              (''status'', JStr ''cached''),
              (''directive'', JStr ''Using last known protocol. OPENAI_API_KEY not set.''),
              (''insight'', JStr []),
              (''statusText'', JStr ''Protocol Cached''),
              (''protocolLogMessage'', JStr []),
              (''error'', JStr ''OPENAI_API_KEY not set'')]), [])"
    by (simp add: runProtocolAnalysis_ts_def)
  from 1 2 C4_no_credential [of None parse_table "demo_service demo_statuses (Inr demo_messages)"
      "JObj [(''biometrics'', JObj [])]"]
  show ?thesis by blast
qed

text \<open>
  Claim C1. \<open>runProtocolAnalysis\<close> never throws: whatever it returns is a result object.
  An error thrown at any stage of the \<open>try\<close> block is caught by the one \<open>catch\<close> clause and
  becomes the cached object, with \<open>protocolCached\<close> true, status \<open>cached\<close> and the message of
  the error in \<open>error\<close> (\<^verbatim>\<open>chronos-brain.js\<close> falls back to \<open>String(err)\<close> for an empty
  message); a \<open>try\<close> block that ends normally gives the completed object. Once the clock
  leaves the window of the maximum wait the analysis does return, in both variants.
\<close>

theorem C1_never_throws:
  "(\<forall>out tr. runProtocolAnalysis_js jp key svc ud = Some (out, tr) \<longrightarrow> (\<exists>r. out = Inr r))
   \<and> (\<forall>out tr. runProtocolAnalysis_ts jp key svc ud = Some (out, tr) \<longrightarrow> (\<exists>r. out = Inr r))
   \<and> (\<forall>err tr. analysis_js jp key svc ud = Some (Inl err, tr) \<longrightarrow>
        (\<exists>r. runProtocolAnalysis_js jp key svc ud
                = Some (Inr r, tr @ [ConsoleError ''Chronos Brain runProtocolAnalysis error:''
                                       (error_text_js err)])
            \<and> is_cached r \<and> js_get r ''error'' = JStr (error_text_js err)))
   \<and> (\<forall>err tr. \<not> no_credential key \<and> analysis_ts jp svc ud = Some (Inl err, tr) \<longrightarrow>
        (\<exists>r. runProtocolAnalysis_ts jp key svc ud
                = Some (Inr r, tr @ [ConsoleError ''Protocol analysis error:'' (exn_message err)])
            \<and> is_cached r \<and> js_get r ''error'' = JStr (exn_message err)))
   \<and> (\<forall>r tr. analysis_js jp key svc ud = Some (Inr r, tr) \<longrightarrow>
        runProtocolAnalysis_js jp key svc ud = Some (Inr r, tr) \<and> is_completed r)
   \<and> (\<forall>r tr. \<not> no_credential key \<and> analysis_ts jp svc ud = Some (Inr r, tr) \<longrightarrow>
        runProtocolAnalysis_ts jp key svc ud = Some (Inr r, tr) \<and> is_completed r)
   \<and> ((\<exists>m. \<not> within svc 120000 m) \<longrightarrow>
        (\<exists>r tr. runProtocolAnalysis_js jp key svc ud = Some (Inr r, tr)
            \<and> (is_completed r \<or> is_cached r))
      \<and> (\<exists>r tr. runProtocolAnalysis_ts jp key svc ud = Some (Inr r, tr)
            \<and> (is_completed r \<or> is_cached r)))"
  using run_js_never_throws [of jp key svc ud] run_ts_never_throws [of jp key svc ud]
    run_js_caught [of jp key svc ud] run_ts_caught [of key jp svc ud]
    run_js_passes [of jp key svc ud] run_ts_passes [of key jp svc ud]
    run_js_returns [of svc _ jp key ud] run_ts_returns [of svc _ jp key ud]
  by (intro conjI allI impI) blast+

theorem C1_never_throws_witness:
  "(\<exists>r tr. runProtocolAnalysis_ts parse_table (Some ''sk-test'')
       ((demo_service demo_statuses (Inr demo_messages))
          \<lparr>threads_create := Inl (Exn ''APIConnectionError'' ''Connection error.'')\<rparr>) JNull
       = Some (Inr r, tr)
     \<and> is_cached r \<and> js_get r ''error'' = JStr ''Connection error.'')
   \<and> (\<exists>r tr. runProtocolAnalysis_ts parse_table (Some ''sk-test'')
       (demo_service (\<lambda>i. ''failed'') (Inr demo_messages)) JNull = Some (Inr r, tr)
     \<and> is_cached r \<and> js_get r ''error'' = JStr ''Run ended with status: failed'')
   \<and> (\<exists>r tr. runProtocolAnalysis_ts parse_table (Some ''sk-test'')
       (demo_service demo_statuses (Inr [])) JNull = Some (Inr r, tr)
     \<and> is_cached r \<and> js_get r ''error'' = JStr ''No assistant message in thread'')
   \<and> (\<exists>r tr. runProtocolAnalysis_js parse_table (Some ''sk-test'')
       (demo_service demo_statuses
          (Inr [\<lparr>msg_role = ''assistant'',
                 msg_content = Some [\<lparr>part_type = ''text'',
                                      part_text = Some (JStr ''not json'')\<rparr>]\<rparr>])) JNull
       = Some (Inr r, tr)
     \<and> is_cached r \<and> js_get r ''error'' = JStr ''Unexpected token'')
   \<and> \<not> within (demo_service demo_statuses (Inr demo_messages)) 120000 80"
proof -
  have k: "\<not> no_credential (Some ''sk-test'')"
    by (simp add: no_credential_def)
  have e: "error_text_js (Exn ''SyntaxError'' ''Unexpected token'') = ''Unexpected token''"
    by (simp add: error_text_js_def)
  have w: "\<not> within (demo_service demo_statuses (Inr demo_messages)) 120000 80"
    by (simp add: demo_within)
  note ts_caught = C1_never_throws [THEN conjunct2, THEN conjunct2, THEN conjunct2,
      THEN conjunct1, rule_format, OF conjI, OF k]
  note js_caught = C1_never_throws [THEN conjunct2, THEN conjunct2, THEN conjunct1, rule_format]
  from ts_caught [OF demo_analysis_network]
  obtain r1 tr1 where a: "runProtocolAnalysis_ts parse_table (Some ''sk-test'')
       ((demo_service demo_statuses (Inr demo_messages))
          \<lparr>threads_create := Inl (Exn ''APIConnectionError'' ''Connection error.'')\<rparr>) JNull
       = Some (Inr r1, tr1)"
    "is_cached r1" "js_get r1 ''error'' = JStr ''Connection error.''"
    by auto
  from ts_caught [OF demo_analysis_failed]
  obtain r2 tr2 where b: "runProtocolAnalysis_ts parse_table (Some ''sk-test'')
       (demo_service (\<lambda>i. ''failed'') (Inr demo_messages)) JNull = Some (Inr r2, tr2)"
    "is_cached r2" "js_get r2 ''error'' = JStr ''Run ended with status: failed''"
    by auto
  from ts_caught [OF demo_analysis_no_message]
  obtain r3 tr3 where c: "runProtocolAnalysis_ts parse_table (Some ''sk-test'')
       (demo_service demo_statuses (Inr [])) JNull = Some (Inr r3, tr3)"
    "is_cached r3" "js_get r3 ''error'' = JStr ''No assistant message in thread''"
    by auto
  from js_caught [OF demo_analysis_malformed]
  obtain r4 tr4 where d: "runProtocolAnalysis_js parse_table (Some ''sk-test'')
       (demo_service demo_statuses
          (Inr [\<lparr>msg_role = ''assistant'',
                 msg_content = Some [\<lparr>part_type = ''text'',
                                      part_text = Some (JStr ''not json'')\<rparr>]\<rparr>])) JNull
       = Some (Inr r4, tr4)"
    "is_cached r4" "js_get r4 ''error'' = JStr ''Unexpected token''"
    unfolding e by auto
  from a b c d w show ?thesis by (intro conjI exI) 
qed

text \<open>
  Claim C2, as stated, fails: the two paths do not return the same keys. In the edge
  function the cached object has \<open>message\<close> and \<open>error\<close> where the completed one has \<open>data\<close>
  and \<open>rawText\<close>, and its \<open>statusText\<close> is \<open>Protocol Cached\<close>, not the empty string; the
  cached object of \<^verbatim>\<open>chronos-brain.js\<close> has neither \<open>statusText\<close> nor
  \<open>protocolLogMessage\<close>.
\<close>

theorem C2_counterexample:
  "runProtocolAnalysis_ts parse_table None (demo_service demo_statuses (Inr demo_messages)) JNull
     = Some (Inr (JObj
             [(''protocolCached'', JBool True),
              (''message'', JStr ''Protocol Cached''),
              (''status'', JStr ''cached''),
              (''directive'', JStr ''Using last known protocol. OPENAI_API_KEY not set.''),
              (''insight'', JStr []),
              (''statusText'', JStr ''Protocol Cached''),
              (''protocolLogMessage'', JStr []),
              (''error'', JStr ''OPENAI_API_KEY not set'')]), [])
   \<and> runProtocolAnalysis_ts parse_table (Some ''sk-test'')
       (demo_service demo_statuses (Inr demo_messages)) JNull
     = Some (Inr (JObj
             [(''protocolCached'', JBool False),
              (''status'', JStr ''completed''),
              (''data'', JObj [(''directive'', JStr ''Rest today'')]),
              (''rawText'', JStr fenced_reply),
              (''directive'', JStr ''Rest today''),
              (''insight'', JStr []),
              (''statusText'', JStr ''Optimal Baseline''),
              (''protocolLogMessage'', JStr ''Rest today'')]),
           [ThreadsCreate, MessagesCreate ''thread_1'' (Some ''No data provided.''),
            RunsCreate ''thread_1'' assistantId,
            RunsRetrieve ''thread_1'' ''run_1'', SetTimeout 1500,
            RunsRetrieve ''thread_1'' ''run_1'', SetTimeout 1500,
            RunsRetrieve ''thread_1'' ''run_1'',
            MessagesList ''thread_1'' ''desc'' 10])
   \<and> set cached_keys_ts \<noteq> set completed_keys
   \<and> runProtocolAnalysis_js parse_table None (demo_service demo_statuses (Inr demo_messages)) JNull
     = Some (Inr (JObj
             [(''protocolCached'', JBool True),
              (''message'', JStr ''Protocol Cached''),
              (''status'', JStr ''cached''),
              (''directive'', JStr ''Using last known protocol. AI temporarily unavailable.''),
              (''insight'', JStr []),
              (''data'', JNull),
              (''error'', JStr ''OPENAI_API_KEY is not set'')]),
           [ConsoleError ''Chronos Brain runProtocolAnalysis error:''
              ''OPENAI_API_KEY is not set''])"
proof -
  have 1: "runProtocolAnalysis_ts parse_table None
             (demo_service demo_statuses (Inr demo_messages)) JNull
     = Some (Inr (JObj
             [(''protocolCached'', JBool True),
              (''message'', JStr ''Protocol Cached''),
              (''status'', JStr ''cached''),
              (''directive'', JStr ''Using last known protocol. OPENAI_API_KEY not set.''),
              (''insight'', JStr []),
              (''statusText'', JStr ''Protocol Cached''),
              (''protocolLogMessage'', JStr []),
              (''error'', JStr ''OPENAI_API_KEY not set'')]), [])"
    by (simp add: runProtocolAnalysis_ts_def)
  have 2: "set cached_keys_ts \<noteq> set completed_keys"
  proof
    assume "set cached_keys_ts = set completed_keys"
    moreover have "''error'' \<in> set cached_keys_ts"
      by (simp add: cached_keys_ts_def)
    ultimately have "''error'' \<in> set completed_keys" by simp
    then show False by (simp add: completed_keys_def)
  qed
  have 3: "runProtocolAnalysis_js parse_table None
             (demo_service demo_statuses (Inr demo_messages)) JNull
     = Some (Inr (JObj
             [(''protocolCached'', JBool True),
              (''message'', JStr ''Protocol Cached''),
              (''status'', JStr ''cached''),
              (''directive'', JStr ''Using last known protocol. AI temporarily unavailable.''),
              (''insight'', JStr []),
              (''data'', JNull),
              (''error'', JStr ''OPENAI_API_KEY is not set'')]),
           [ConsoleError ''Chronos Brain runProtocolAnalysis error:''
              ''OPENAI_API_KEY is not set''])"
    by (simp add: runProtocolAnalysis_js_def analysis_js_def getClient_def
        PROTOCOL_CACHED_FALLBACK_def)
  from 1 demo_run_ts 2 3 show ?thesis by (intro conjI)
qed

text \<open>
  Claim C2, amended. Every result is either completed (status \<open>completed\<close>,
  \<open>protocolCached\<close> false) or cached (status \<open>cached\<close>, \<open>protocolCached\<close> true), never both.
  A completed result has the keys \<open>protocolCached\<close>, \<open>status\<close>, \<open>data\<close>, \<open>rawText\<close>,
  \<open>directive\<close>, \<open>insight\<close>, \<open>statusText\<close>, \<open>protocolLogMessage\<close>, the last four never \<open>null\<close>
  or \<open>undefined\<close>. A cached result of the edge function has the keys \<open>protocolCached\<close>,
  \<open>message\<close>, \<open>status\<close>, \<open>directive\<close>, \<open>insight\<close>, \<open>statusText\<close>, \<open>protocolLogMessage\<close>,
  \<open>error\<close>, the four fields strings, \<open>insight\<close> and \<open>protocolLogMessage\<close> empty. A cached
  result of \<^verbatim>\<open>chronos-brain.js\<close> has at least the keys \<open>protocolCached\<close>, \<open>message\<close>,
  \<open>status\<close>, \<open>directive\<close>, \<open>insight\<close>, \<open>error\<close>, with \<open>insight\<close> empty.
\<close>

theorem C2_result_shape:
  "(\<forall>out tr. runProtocolAnalysis_ts jp key svc ud = Some (out, tr) \<longrightarrow>
      (\<exists>r. out = Inr r \<and>
         (is_completed r \<and> \<not> is_cached r \<and> keys r = completed_keys
            \<and> (\<forall>k\<in>set normalized_keys. \<not> nullish (js_get r k))
          \<or> is_cached r \<and> \<not> is_completed r \<and> keys r = cached_keys_ts
            \<and> (\<forall>k\<in>set normalized_keys. typeof_string (js_get r k))
            \<and> js_get r ''insight'' = JStr [] \<and> js_get r ''protocolLogMessage'' = JStr [])))
   \<and> (\<forall>out tr. runProtocolAnalysis_js jp key svc ud = Some (out, tr) \<longrightarrow>
      (\<exists>r. out = Inr r \<and>
         (is_completed r \<and> \<not> is_cached r \<and> keys r = completed_keys
            \<and> (\<forall>k\<in>set normalized_keys. \<not> nullish (js_get r k))
          \<or> is_cached r \<and> \<not> is_completed r \<and> set cached_keys_common \<subseteq> set (keys r)
            \<and> js_get r ''insight'' = JStr [])))
   \<and> set normalized_keys \<subseteq> set completed_keys \<inter> set cached_keys_ts
   \<and> set completed_keys - set cached_keys_ts = {''data'', ''rawText''}
   \<and> set cached_keys_ts - set completed_keys = {''message'', ''error''}"
proof -
  have k1: "set normalized_keys \<subseteq> set completed_keys \<inter> set cached_keys_ts"
    by (simp add: normalized_keys_def completed_keys_def cached_keys_ts_def)
  have k2: "set completed_keys - set cached_keys_ts = {''data'', ''rawText''}"
    by (auto simp add: completed_keys_def cached_keys_ts_def)
  have k3: "set cached_keys_ts - set completed_keys = {''message'', ''error''}"
    by (auto simp add: completed_keys_def cached_keys_ts_def)
  from run_ts_shape [of jp key svc ud] run_js_shape [of jp key svc ud] k1 k2 k3
  show ?thesis by (intro conjI allI impI)
qed

theorem C2_result_shape_witness:
  "(\<exists>r tr. runProtocolAnalysis_ts parse_table (Some ''sk-test'')
        (demo_service demo_statuses (Inr demo_messages)) JNull = Some (Inr r, tr)
      \<and> is_completed r \<and> keys r = completed_keys)
   \<and> (\<exists>r tr. runProtocolAnalysis_js parse_table None
        (demo_service demo_statuses (Inr demo_messages)) JNull = Some (Inr r, tr)
      \<and> is_cached r \<and> js_get r ''insight'' = JStr [])"
proof -
  note ts_shape = C2_result_shape [THEN conjunct1, rule_format]
  note js_shape = C2_result_shape [THEN conjunct2, THEN conjunct1, rule_format]
  let ?c = "JObj
             [(''protocolCached'', JBool False),
              (''status'', JStr ''completed''),
              (''data'', JObj [(''directive'', JStr ''Rest today'')]),
              (''rawText'', JStr fenced_reply),
              (''directive'', JStr ''Rest today''),
              (''insight'', JStr []),
              (''statusText'', JStr ''Optimal Baseline''),
              (''protocolLogMessage'', JStr ''Rest today'')]"
  have nc: "\<not> is_cached ?c"
    by (simp add: is_cached_def)
  from ts_shape [OF demo_run_ts] nc
  have a: "is_completed ?c \<and> keys ?c = completed_keys"
    by auto
  have j: "runProtocolAnalysis_js parse_table None
             (demo_service demo_statuses (Inr demo_messages)) JNull
     = Some (Inr (JObj (PROTOCOL_CACHED_FALLBACK
                          @ [(''error'', JStr ''OPENAI_API_KEY is not set'')])),
           [ConsoleError ''Chronos Brain runProtocolAnalysis error:''
              ''OPENAI_API_KEY is not set''])"
    by (simp add: runProtocolAnalysis_js_def analysis_js_def getClient_def)
  have ncomp: "\<not> is_completed (JObj (PROTOCOL_CACHED_FALLBACK
                          @ [(''error'', JStr ''OPENAI_API_KEY is not set'')]))"
    by (simp add: is_completed_def PROTOCOL_CACHED_FALLBACK_def)
  from js_shape [OF j] ncomp
  have b: "is_cached (JObj (PROTOCOL_CACHED_FALLBACK
                          @ [(''error'', JStr ''OPENAI_API_KEY is not set'')]))
           \<and> js_get (JObj (PROTOCOL_CACHED_FALLBACK
                          @ [(''error'', JStr ''OPENAI_API_KEY is not set'')])) ''insight''
               = JStr []"
    by auto
  from demo_run_ts a j b show ?thesis by blast
qed


end
